theory Spec2Isabelle
  imports Main "HOL-Library.AList"
begin

section \<open>The SSO handler of \<^verbatim>\<open>synapse/handlers/sso.py\<close>\<close>

text \<open>
  The handler is embedded as functions that pass the state explicitly and return every
  exception as a value. A method \<^verbatim>\<open>async def f(self, x) -> T\<close> becomes
  \<open>f hs x self = (r, self')\<close>: \<open>r\<close> is \<open>Inr\<close> of the returned value or \<open>Inl\<close> of the
  exception raised, and \<open>self'\<close> is the handler after the call (mutations made before a
  raise stay made, as in Python). Calls are run one after the other: the
  \<^verbatim>\<open>Linearizer\<close> lock of \<^verbatim>\<open>complete_sso_login_request\<close> and the interleaving of
  coroutines are outside this model.
\<close>

subsection \<open>Exceptions\<close>

text \<open>The error codes of \<^verbatim>\<open>synapse.api.errors.Codes\<close> that occur here.\<close>

datatype Codes = UNRECOGNIZED | UNKNOWN | USER_IN_USE

text \<open>
  The subclasses of \<^verbatim>\<open>Exception\<close> that the handler raises or tells apart.
  \<open>MappingException msg cause\<close> carries the message and the \<^verbatim>\<open>__cause__\<close> set by
  \<^verbatim>\<open>raise ... from e\<close>; \<open>RedirectException location cookies\<close>;
  \<open>SynapseError code msg errcode\<close> (\<^verbatim>\<open>errcode\<close> defaults to \<^verbatim>\<open>Codes.UNKNOWN\<close>);
  \<open>OtherException detail\<close> is any other \<^verbatim>\<open>Exception\<close> that code outside the handler
  may raise.
\<close>

datatype exn =
    MappingException string "exn option"
  | RedirectException string "string list"
  | SynapseError int string Codes
  | KeyError string
  | UnicodeEncodeError string
  | OtherException string

fun message :: "exn \<Rightarrow> string" where
  "message (MappingException msg _) = msg"
| "message (RedirectException location _) = location"
| "message (SynapseError _ msg _) = msg"
| "message (KeyError k) = k"
| "message (UnicodeEncodeError s) = s"
| "message (OtherException detail) = detail"

subsection \<open>Python values\<close>

text \<open>\<^verbatim>\<open>not x\<close> for \<^verbatim>\<open>x: Optional[str]\<close>: \<^verbatim>\<open>None\<close> and \<^verbatim>\<open>""\<close> are falsy.\<close>

fun truthy :: "string option \<Rightarrow> bool" where
  "truthy None = False"
| "truthy (Some s) = (s \<noteq> [])"

text \<open>\<^verbatim>\<open>"%s" % (x,)\<close> for \<^verbatim>\<open>x: Optional[str]\<close>.\<close>

fun format_s :: "string option \<Rightarrow> string" where
  "format_s None = ''None''"
| "format_s (Some s) = s"

text \<open>
  A \<^verbatim>\<open>dict\<close> with string keys is an association list in insertion order, with
  distinct keys. \<^verbatim>\<open>d[k] = v\<close> replaces in place or appends; \<^verbatim>\<open>del d[k]\<close> raises
  \<^verbatim>\<open>KeyError\<close> when the key is absent.
\<close>

type_synonym 'v dict = "(string \<times> 'v) list"

definition dict_get :: "'v dict \<Rightarrow> string \<Rightarrow> 'v option" where
  "dict_get d k = map_of d k"

definition dict_set :: "string \<Rightarrow> 'v \<Rightarrow> 'v dict \<Rightarrow> 'v dict" where
  "dict_set k v d = AList.update k v d"

definition dict_del :: "string \<Rightarrow> 'v dict \<Rightarrow> exn + 'v dict" where
  "dict_del k d = (case map_of d k of None \<Rightarrow> Inl (KeyError k) | Some _ \<Rightarrow> Inr (AList.delete k d))"

text \<open>\<^verbatim>\<open>s.encode("ascii")\<close> raises on a character outside ASCII.\<close>

definition encode_ascii :: "string \<Rightarrow> exn + string" where
  "encode_ascii s =
     (if list_all (\<lambda>c. (of_char c :: nat) < 128) s then Inr s
      else Inl (UnicodeEncodeError s))"

type_synonym JsonDict = "(string \<times> string) list"

subsection \<open>Data model\<close>

record UserAttributes =
  localpart :: "string option"
  display_name :: "string option"
  emails :: "string list"

record UsernameMappingSession =
  auth_provider_id :: string
  remote_user_id :: string
  display_name :: "string option"
  emails :: "string list"
  extra_login_attributes :: "JsonDict option"
  client_redirect_url :: string
  expiry_time_ms :: int

definition USERNAME_MAPPING_SESSION_COOKIE_NAME :: string where
  "USERNAME_MAPPING_SESSION_COOKIE_NAME = ''username_mapping_session''"

text \<open>
  The part of a \<^verbatim>\<open>SynapseRequest\<close> that the handler reads and writes: the
  \<^verbatim>\<open>User-Agent\<close> header, the client address and the cookies added to the response.
\<close>

record Cookie =
  cookie_name :: string
  cookie_value :: string
  cookie_expires :: "string option"
  cookie_path :: "string option"

record SynapseRequest =
  user_agent :: "string option"
  client_ip :: string
  cookies :: "Cookie list"

definition get_user_agent :: "SynapseRequest \<Rightarrow> string \<Rightarrow> string" where
  "get_user_agent request dflt = (case user_agent request of None \<Rightarrow> dflt | Some ua \<Rightarrow> ua)"

definition getClientIP :: "SynapseRequest \<Rightarrow> string" where
  "getClientIP request = client_ip request"

definition addCookie ::
  "string \<Rightarrow> string \<Rightarrow> string option \<Rightarrow> string option \<Rightarrow> SynapseRequest \<Rightarrow> SynapseRequest" where
  "addCookie k v expires path request =
     request\<lparr>cookies := cookies request @
       [\<lparr>cookie_name = k, cookie_value = v, cookie_expires = expires, cookie_path = path\<rparr>]\<rparr>"

subsection \<open>The collaborators of the handler\<close>

text \<open>
  The code that the handler calls and that lies outside \<^verbatim>\<open>sso.py\<close> is a parameter:
  a record of functions over the state \<open>'w\<close> of everything outside the handler (the
  database, the registration and login subsystems, the clock, the random source).
  \<^item> \<^verbatim>\<open>hs.hostname\<close>, \<^verbatim>\<open>hs.get_clock().time_msec\<close>;
  \<^item> \<^verbatim>\<open>random_string\<close> of \<^verbatim>\<open>synapse.util.stringutils\<close>, which draws from the random
    source, \<^verbatim>\<open>contains_invalid_mxid_characters\<close> of \<^verbatim>\<open>synapse.types\<close> and
    \<^verbatim>\<open>urlencode\<close> of \<^verbatim>\<open>urllib.parse\<close>;
  \<^item> the store: the queries \<^verbatim>\<open>get_user_by_external_id\<close> and
    \<^verbatim>\<open>get_users_by_id_case_insensitive\<close> (the dict of the matching users) read \<open>'w\<close>,
    and \<^verbatim>\<open>record_user_external_id\<close> writes it; a failure of the database is outside
    the model;
  \<^item> \<^verbatim>\<open>register_user\<close> of the registration handler and \<^verbatim>\<open>complete_sso_login\<close> of
    the auth handler write \<open>'w\<close> and may raise.
\<close>

record 'w HomeServer =
  hostname :: string
  time_msec :: "'w \<Rightarrow> int"
  random_string :: "nat \<Rightarrow> 'w \<Rightarrow> string \<times> 'w"
  contains_invalid_mxid_characters :: "string \<Rightarrow> bool"
  urlencode :: "(string \<times> string) list \<Rightarrow> string"
  get_user_by_external_id :: "string \<Rightarrow> string \<Rightarrow> 'w \<Rightarrow> string option"
  record_user_external_id :: "string \<Rightarrow> string \<Rightarrow> string \<Rightarrow> 'w \<Rightarrow> 'w"
  get_users_by_id_case_insensitive :: "string \<Rightarrow> 'w \<Rightarrow> string dict"
  register_user ::
    "string \<Rightarrow> string option \<Rightarrow> string list \<Rightarrow> (string \<times> string) list \<Rightarrow> 'w
      \<Rightarrow> (exn + string) \<times> 'w"
  complete_sso_login ::
    "string \<Rightarrow> SynapseRequest \<Rightarrow> string \<Rightarrow> JsonDict option \<Rightarrow> 'w \<Rightarrow> (exn + unit) \<times> 'w"

text \<open>
  Modelled from the spec: \<^verbatim>\<open>UserID(localpart, domain).to_string()\<close> of
  \<^verbatim>\<open>synapse.types\<close> is not in \<^verbatim>\<open>sso.py\<close>; the scenarios of the specification give
  \<^verbatim>\<open>@bob:example.org\<close> for the localpart \<^verbatim>\<open>bob\<close>.
\<close>

definition UserID_to_string :: "string \<Rightarrow> string \<Rightarrow> string" where
  "UserID_to_string lp domain = ''@'' @ lp @ '':'' @ domain"

text \<open>An identity provider: the \<^verbatim>\<open>SsoIdentityProvider\<close> protocol.\<close>

record 'w SsoIdentityProvider =
  idp_id :: string
  idp_name :: string
  idp_handle_redirect_request ::
    "SynapseRequest \<Rightarrow> string option \<Rightarrow> string option \<Rightarrow> 'w \<Rightarrow> (exn + string) \<times> 'w"

text \<open>
  The handler: its two dicts, and the state \<open>world\<close> of the collaborators it holds
  (\<^verbatim>\<open>self._store\<close>, \<^verbatim>\<open>self._clock\<close>, \<^verbatim>\<open>self._registration_handler\<close>,
  \<^verbatim>\<open>self._auth_handler\<close>).
\<close>

record 'w SsoHandler =
  username_mapping_sessions :: "UsernameMappingSession dict"
  identity_providers :: "'w SsoIdentityProvider dict"
  world :: 'w

definition MAP_USERNAME_RETRIES :: nat where
  "MAP_USERNAME_RETRIES = 1000"

definition MAPPING_SESSION_VALIDITY_PERIOD_MS :: int where
  "MAPPING_SESSION_VALIDITY_PERIOD_MS = 15 * 60 * 1000"

text \<open>Sequencing: the second action runs only when the first one returned.\<close>

definition and_then ::
  "('s \<Rightarrow> (exn + 'a) \<times> 's) \<Rightarrow> ('a \<Rightarrow> 's \<Rightarrow> (exn + 'b) \<times> 's) \<Rightarrow> 's \<Rightarrow> (exn + 'b) \<times> 's" where
  "and_then f g s = (case f s of (Inl e, s') \<Rightarrow> (Inl e, s') | (Inr x, s') \<Rightarrow> g x s')"

text \<open>A call into a collaborator, run on the handler's \<open>world\<close>.\<close>

definition in_world ::
  "('w \<Rightarrow> (exn + 'a) \<times> 'w) \<Rightarrow> 'w SsoHandler \<Rightarrow> (exn + 'a) \<times> 'w SsoHandler" where
  "in_world f self = (case f (world self) of (r, w') \<Rightarrow> (r, self\<lparr>world := w'\<rparr>))"

subsection \<open>\<^verbatim>\<open>handle_redirect_request\<close>\<close>

definition handle_redirect_request ::
  "'w HomeServer \<Rightarrow> SynapseRequest \<Rightarrow> string \<Rightarrow> 'w SsoHandler
    \<Rightarrow> (exn + string) \<times> 'w SsoHandler" where
  "handle_redirect_request hs request client_redirect_url' self =
     (if identity_providers self = [] then
        (Inl (SynapseError 400 ''Homeserver not configured for SSO.'' UNRECOGNIZED), self)
      else if length (identity_providers self) = 1 then
        (case identity_providers self of
           (_, ap) # _ \<Rightarrow>
             in_world (idp_handle_redirect_request ap request (Some client_redirect_url') None) self)
      else
        (Inr (''/_synapse/client/pick_idp?'' @
              urlencode hs [(''redirectUrl'', client_redirect_url')]), self))"

subsection \<open>\<^verbatim>\<open>get_sso_user_by_remote_user_id\<close>\<close>

definition get_sso_user_by_remote_user_id ::
  "'w HomeServer \<Rightarrow> string \<Rightarrow> string \<Rightarrow> 'w SsoHandler \<Rightarrow> string option" where
  "get_sso_user_by_remote_user_id hs auth_provider_id' remote_user_id' self =
     (let previously_registered_user_id =
            get_user_by_external_id hs auth_provider_id' remote_user_id' (world self)
      in case previously_registered_user_id of
           Some user_id \<Rightarrow> Some user_id
         | None \<Rightarrow> None)"

subsection \<open>\<^verbatim>\<open>_call_attribute_mapper\<close>\<close>

text \<open>
  The \<^verbatim>\<open>for i in range(...)\<close> loop, by recursion on the indices still to try; the
  empty list is the \<^verbatim>\<open>else\<close> branch of the loop. The mapper is a callback that may
  write the world and may raise.
\<close>

type_synonym 'w mapper = "nat \<Rightarrow> 'w \<Rightarrow> (exn + UserAttributes) \<times> 'w"

fun call_attribute_mapper_loop ::
  "'w HomeServer \<Rightarrow> 'w mapper \<Rightarrow> nat list \<Rightarrow> 'w SsoHandler
    \<Rightarrow> (exn + UserAttributes) \<times> 'w SsoHandler" where
  "call_attribute_mapper_loop hs sso_to_matrix_id_mapper [] self =
     (Inl (MappingException ''Unable to generate a Matrix ID from the SSO response'' None), self)"
| "call_attribute_mapper_loop hs sso_to_matrix_id_mapper (i # rest) self =
     (case in_world (sso_to_matrix_id_mapper i) self of
        (Inl e, self') \<Rightarrow>
          (case e of
             RedirectException _ _ \<Rightarrow> (Inl e, self')
           | MappingException _ _ \<Rightarrow> (Inl e, self')
           | _ \<Rightarrow>
               (Inl (MappingException ''Could not extract user attributes from SSO response.''
                      (Some e)), self'))
      | (Inr attributes, self') \<Rightarrow>
          (case localpart attributes of
             None \<Rightarrow> (Inr attributes, self')
           | Some lp \<Rightarrow>
               if lp = [] then (Inr attributes, self')
               else
                 let user_id = UserID_to_string lp (hostname hs) in
                 if get_users_by_id_case_insensitive hs user_id (world self') = []
                 then (Inr attributes, self')
                 else call_attribute_mapper_loop hs sso_to_matrix_id_mapper rest self'))"

definition call_attribute_mapper ::
  "'w HomeServer \<Rightarrow> 'w mapper \<Rightarrow> 'w SsoHandler \<Rightarrow> (exn + UserAttributes) \<times> 'w SsoHandler" where
  "call_attribute_mapper hs sso_to_matrix_id_mapper self =
     call_attribute_mapper_loop hs sso_to_matrix_id_mapper [0..<MAP_USERNAME_RETRIES] self"

subsection \<open>\<^verbatim>\<open>_redirect_to_username_picker\<close>\<close>

text \<open>The method never returns (\<^verbatim>\<open>NoReturn\<close>): its result is the exception raised.\<close>

definition redirect_to_username_picker ::
  "'w HomeServer \<Rightarrow> string \<Rightarrow> string \<Rightarrow> UserAttributes \<Rightarrow> string \<Rightarrow> JsonDict option
    \<Rightarrow> 'w SsoHandler \<Rightarrow> exn \<times> 'w SsoHandler" where
  "redirect_to_username_picker hs auth_provider_id' remote_user_id' attributes
       client_redirect_url' extra_login_attributes' self =
     (case random_string hs 16 (world self) of
        (session_id, w') \<Rightarrow>
          let now = time_msec hs w';
              session = \<lparr>auth_provider_id = auth_provider_id',
                         remote_user_id = remote_user_id',
                         display_name = UserAttributes.display_name attributes,
                         emails = UserAttributes.emails attributes,
                         extra_login_attributes = extra_login_attributes',
                         client_redirect_url = client_redirect_url',
                         expiry_time_ms = now + MAPPING_SESSION_VALIDITY_PERIOD_MS\<rparr>;
              self' = self\<lparr>username_mapping_sessions :=
                             dict_set session_id session (username_mapping_sessions self),
                           world := w'\<rparr>
          in (case encode_ascii session_id of
                Inl e \<Rightarrow> (e, self')
              | Inr sid \<Rightarrow>
                  (RedirectException ''/_synapse/client/pick_username''
                     [USERNAME_MAPPING_SESSION_COOKIE_NAME @ ''='' @ sid @ ''; path=/''], self')))"

subsection \<open>\<^verbatim>\<open>_register_mapped_user\<close>\<close>

definition register_mapped_user ::
  "'w HomeServer \<Rightarrow> UserAttributes \<Rightarrow> string \<Rightarrow> string \<Rightarrow> string \<Rightarrow> string
    \<Rightarrow> 'w SsoHandler \<Rightarrow> (exn + string) \<times> 'w SsoHandler" where
  "register_mapped_user hs attributes auth_provider_id' remote_user_id' user_agent' ip_address self =
     (case localpart attributes of
        None \<Rightarrow>
          (Inl (MappingException (''localpart is invalid: '' @ format_s (localpart attributes))
                  None), self)
      | Some lp \<Rightarrow>
          if lp = [] \<or> contains_invalid_mxid_characters hs lp then
            (Inl (MappingException (''localpart is invalid: '' @ format_s (localpart attributes))
                    None), self)
          else
            and_then
              (in_world (register_user hs lp (UserAttributes.display_name attributes)
                 (UserAttributes.emails attributes) [(user_agent', ip_address)]))
              (\<lambda>registered_user_id self'.
                 (Inr registered_user_id,
                  self'\<lparr>world := record_user_external_id hs auth_provider_id' remote_user_id'
                                    registered_user_id (world self')\<rparr>))
              self)"

subsection \<open>\<^verbatim>\<open>complete_sso_login_request\<close>\<close>

type_synonym 'w grandfather = "'w \<Rightarrow> (exn + string option) \<times> 'w"

definition complete_sso_login_request ::
  "'w HomeServer \<Rightarrow> string \<Rightarrow> string \<Rightarrow> SynapseRequest \<Rightarrow> string \<Rightarrow> 'w mapper
    \<Rightarrow> 'w grandfather \<Rightarrow> JsonDict option \<Rightarrow> 'w SsoHandler \<Rightarrow> (exn + unit) \<times> 'w SsoHandler" where
  "complete_sso_login_request hs auth_provider_id' remote_user_id' request client_redirect_url'
       sso_to_matrix_id_mapper grandfather_existing_users extra_login_attributes' self =
     and_then
       (\<lambda>self.
          let user_id = get_sso_user_by_remote_user_id hs auth_provider_id' remote_user_id' self
          in if truthy user_id then (Inr user_id, self)
             else
               and_then (in_world grandfather_existing_users)
                 (\<lambda>user_id self.
                    if truthy user_id then
                      (Inr user_id,
                       self\<lparr>world := record_user_external_id hs auth_provider_id' remote_user_id'
                                        (the user_id) (world self)\<rparr>)
                    else (Inr user_id, self))
                 self)
       (\<lambda>user_id.
          and_then
            (\<lambda>self.
               if truthy user_id then (Inr (the user_id), self)
               else
                 and_then (call_attribute_mapper hs sso_to_matrix_id_mapper)
                   (\<lambda>attributes self.
                      if localpart attributes = None then
                        (case redirect_to_username_picker hs auth_provider_id' remote_user_id'
                                attributes client_redirect_url' extra_login_attributes' self of
                           (e, self') \<Rightarrow> (Inl e, self'))
                      else
                        register_mapped_user hs attributes auth_provider_id' remote_user_id'
                          (get_user_agent request '''') (getClientIP request) self)
                   self)
            (\<lambda>user_id.
               in_world (complete_sso_login hs user_id request client_redirect_url'
                           extra_login_attributes')))
       self"

subsection \<open>\<^verbatim>\<open>_expire_old_sessions\<close>\<close>

fun del_sessions :: "string list \<Rightarrow> 'w SsoHandler \<Rightarrow> (exn + unit) \<times> 'w SsoHandler" where
  "del_sessions [] self = (Inr (), self)"
| "del_sessions (session_id # rest) self =
     (case dict_del session_id (username_mapping_sessions self) of
        Inl e \<Rightarrow> (Inl e, self)
      | Inr d \<Rightarrow> del_sessions rest (self\<lparr>username_mapping_sessions := d\<rparr>))"

definition expire_old_sessions ::
  "'w HomeServer \<Rightarrow> 'w SsoHandler \<Rightarrow> (exn + unit) \<times> 'w SsoHandler" where
  "expire_old_sessions hs self =
     (let now = time_msec hs (world self);
          to_expire = map fst (filter (\<lambda>(session_id, session). expiry_time_ms session \<le> now)
                                 (username_mapping_sessions self))
      in del_sessions to_expire self)"

subsection \<open>\<^verbatim>\<open>check_username_availability\<close>\<close>

definition check_username_availability ::
  "'w HomeServer \<Rightarrow> string \<Rightarrow> string \<Rightarrow> 'w SsoHandler \<Rightarrow> (exn + bool) \<times> 'w SsoHandler" where
  "check_username_availability hs localpart' session_id self =
     and_then (expire_old_sessions hs)
       (\<lambda>_ self.
          case dict_get (username_mapping_sessions self) session_id of
            None \<Rightarrow> (Inl (SynapseError 400 ''unknown session'' UNKNOWN), self)
          | Some session \<Rightarrow>
              if contains_invalid_mxid_characters hs localpart' then
                (Inl (SynapseError 400 (''localpart is invalid: '' @ localpart') UNKNOWN), self)
              else
                let user_id = UserID_to_string localpart' (hostname hs);
                    user_infos = get_users_by_id_case_insensitive hs user_id (world self)
                in (Inr (user_infos = []), self))
       self"

subsection \<open>\<^verbatim>\<open>handle_submit_username_request\<close>\<close>

text \<open>
  The request is an argument that the method writes (\<^verbatim>\<open>addCookie\<close>), so it is
  returned. The method is in two parts: \<open>submit_username_with_session\<close> is its body from
  the line after the lookup of the session on, for the session found.
\<close>

definition submit_username_with_session ::
  "'w HomeServer \<Rightarrow> SynapseRequest \<Rightarrow> string \<Rightarrow> string \<Rightarrow> UsernameMappingSession
    \<Rightarrow> 'w SsoHandler \<Rightarrow> (exn + unit) \<times> SynapseRequest \<times> 'w SsoHandler" where
  "submit_username_with_session hs request localpart' session_id session self =
     (let attributes = \<lparr>localpart = Some localpart',
                        UserAttributes.display_name = display_name session,
                        UserAttributes.emails = emails session\<rparr>
      in (case register_mapped_user hs attributes (auth_provider_id session)
                (remote_user_id session) (get_user_agent request '''')
                (getClientIP request) self of
            (Inl e, self') \<Rightarrow> (Inl e, request, self')
          | (Inr user_id, self') \<Rightarrow>
              (case dict_del session_id (username_mapping_sessions self') of
                 Inl e \<Rightarrow> (Inl e, request, self')
               | Inr d \<Rightarrow>
                   let self'' = self'\<lparr>username_mapping_sessions := d\<rparr>;
                       request' = addCookie USERNAME_MAPPING_SESSION_COOKIE_NAME ''''
                                    (Some ''Thu, 01 Jan 1970 00:00:00 GMT'') (Some ''/'')
                                    request
                   in (case in_world (complete_sso_login hs user_id request'
                                        (client_redirect_url session)
                                        (extra_login_attributes session)) self'' of
                         (r, self''') \<Rightarrow> (r, request', self''')))))"

definition handle_submit_username_request ::
  "'w HomeServer \<Rightarrow> SynapseRequest \<Rightarrow> string \<Rightarrow> string \<Rightarrow> 'w SsoHandler
    \<Rightarrow> (exn + unit) \<times> SynapseRequest \<times> 'w SsoHandler" where
  "handle_submit_username_request hs request localpart' session_id self =
     (case expire_old_sessions hs self of
        (Inl e, self') \<Rightarrow> (Inl e, request, self')
      | (Inr _, self') \<Rightarrow>
          (case dict_get (username_mapping_sessions self') session_id of
             None \<Rightarrow> (Inl (SynapseError 400 ''unknown session'' UNKNOWN), request, self')
           | Some session \<Rightarrow>
               submit_username_with_session hs request localpart' session_id session self'))"

section \<open>Notions used in the statements\<close>

text \<open>
  The world after the attempts \<open>0, ..., k - 1\<close> of a mapper have been run one after the
  other, starting from \<open>w\<close>.
\<close>

definition attempts_world :: "'w mapper \<Rightarrow> nat \<Rightarrow> 'w \<Rightarrow> 'w" where
  "attempts_world m k w = fold (\<lambda>i w. snd (m i w)) [0..<k] w"

text \<open>
  Attempt \<open>i\<close> of the mapper, run on \<open>w\<close>, returns a non-empty localpart whose user id
  some account already owns.
\<close>

definition collides :: "'w HomeServer \<Rightarrow> 'w mapper \<Rightarrow> nat \<Rightarrow> 'w \<Rightarrow> bool" where
  "collides hs m i w =
     (case m i w of
        (Inl e, w') \<Rightarrow> False
      | (Inr attributes, w') \<Rightarrow>
          (case localpart attributes of
             None \<Rightarrow> False
           | Some lp \<Rightarrow>
               lp \<noteq> [] \<and>
               get_users_by_id_case_insensitive hs (UserID_to_string lp (hostname hs)) w' \<noteq> []))"

text \<open>
  The attributes end the loop: the localpart is absent or empty, or no account owns its
  user id in \<open>w\<close>.
\<close>

definition settles :: "'w HomeServer \<Rightarrow> UserAttributes \<Rightarrow> 'w \<Rightarrow> bool" where
  "settles hs attributes w =
     (case localpart attributes of
        None \<Rightarrow> True
      | Some lp \<Rightarrow>
          lp = [] \<or> get_users_by_id_case_insensitive hs (UserID_to_string lp (hostname hs)) w = [])"

text \<open>
  The two exceptions of the mapper that the loop re-raises: \<^verbatim>\<open>RedirectException\<close> and
  \<^verbatim>\<open>MappingException\<close>.
\<close>

fun passes_through :: "exn \<Rightarrow> bool" where
  "passes_through (RedirectException _ _) = True"
| "passes_through (MappingException _ _) = True"
| "passes_through _ = False"

text \<open>
  The localpart fails the check of \<^verbatim>\<open>_register_mapped_user\<close>: it is absent, or
  empty, or has a character that a local identifier must not have.
\<close>

definition invalid_localpart :: "'w HomeServer \<Rightarrow> string option \<Rightarrow> bool" where
  "invalid_localpart hs lp_opt =
     (case lp_opt of
        None \<Rightarrow> True
      | Some lp \<Rightarrow> lp = [] \<or> contains_invalid_mxid_characters hs lp)"

text \<open>The sessions that a sweep at the time \<open>now\<close> leaves.\<close>

definition unexpired :: "int \<Rightarrow> UsernameMappingSession dict \<Rightarrow> UsernameMappingSession dict" where
  "unexpired now d = filter (\<lambda>(session_id, session). \<not> expiry_time_ms session \<le> now) d"

text \<open>
  The handler after a sequence of availability checks. Each check is given with the
  localpart, the session id and the world as it stood when the check was made.
\<close>

fun after_checks ::
  "'w HomeServer \<Rightarrow> (string \<times> string \<times> 'w) list \<Rightarrow> 'w SsoHandler \<Rightarrow> 'w SsoHandler" where
  "after_checks hs [] self = self"
| "after_checks hs ((lp, sid, w) # checks) self =
     after_checks hs checks (snd (check_username_availability hs lp sid (self\<lparr>world := w\<rparr>)))"

section \<open>An example deployment\<close>

text \<open>
  A small world on which the model runs: a clock, a supply of random strings, the table
  of external ids, the registered user ids, the logins completed, and the attempt
  indices that the example mapper was called with.
\<close>

record sim_world =
  now_ms :: int
  random_strings :: "string list"
  user_external_ids :: "((string \<times> string) \<times> string) list"
  users :: "string list"
  logins :: "string list"
  mapper_calls :: "nat list"

definition lower_char :: "char \<Rightarrow> char" where
  "lower_char c =
     (case map_of (zip ''ABCDEFGHIJKLMNOPQRSTUVWXYZ'' ''abcdefghijklmnopqrstuvwxyz'') c of
        None \<Rightarrow> c
      | Some l \<Rightarrow> l)"

definition sim_taken :: "string \<Rightarrow> sim_world \<Rightarrow> string list" where
  "sim_taken user_id w = filter (\<lambda>u. map lower_char u = map lower_char user_id) (users w)"

text \<open>
  \<^verbatim>\<open>urllib.parse.urlencode\<close> on byte strings, as Python 3.7 and later do it: letters,
  digits and \<^verbatim>\<open>_.-~\<close> stay, a space becomes \<^verbatim>\<open>+\<close>, any other byte becomes \<^verbatim>\<open>%XX\<close>;
  the pairs are joined with \<^verbatim>\<open>&\<close>.
\<close>

definition hex_digit :: "nat \<Rightarrow> char" where
  "hex_digit n = ''0123456789ABCDEF'' ! n"

definition quote_plus_char :: "char \<Rightarrow> string" where
  "quote_plus_char c =
     (if c \<in> set ''ABCDEFGHIJKLMNOPQRSTUVWXYZabcdefghijklmnopqrstuvwxyz0123456789_.-~'' then [c]
      else if c = CHR '' '' then ''+''
      else [CHR ''%'', hex_digit (of_char c div 16), hex_digit (of_char c mod 16)])"

definition quote_plus :: "string \<Rightarrow> string" where
  "quote_plus s = concat (map quote_plus_char s)"

fun sim_urlencode :: "(string \<times> string) list \<Rightarrow> string" where
  "sim_urlencode [] = []"
| "sim_urlencode [(k, v)] = quote_plus k @ ''='' @ quote_plus v"
| "sim_urlencode ((k, v) # kvs) = quote_plus k @ ''='' @ quote_plus v @ ''&'' @ sim_urlencode kvs"

definition sim_hs :: "sim_world HomeServer" where
  "sim_hs =
     \<lparr>hostname = ''example.org'',
      time_msec = now_ms,
      random_string = (\<lambda>n w. case random_strings w of
                                [] \<Rightarrow> (replicate n CHR ''x'', w)
                              | s # rest \<Rightarrow> (s, w\<lparr>random_strings := rest\<rparr>)),
      contains_invalid_mxid_characters =
        list_ex (\<lambda>c. c \<notin> set ''abcdefghijklmnopqrstuvwxyz0123456789_-./=''),
      urlencode = sim_urlencode,
      get_user_by_external_id = (\<lambda>p r w. map_of (user_external_ids w) (p, r)),
      record_user_external_id =
        (\<lambda>p r u w. w\<lparr>user_external_ids := user_external_ids w @ [((p, r), u)]\<rparr>),
      get_users_by_id_case_insensitive =
        (\<lambda>user_id w. map (\<lambda>u. (u, ''hash'')) (sim_taken user_id w)),
      register_user =
        (\<lambda>lp dn ems uaips w.
           let user_id = UserID_to_string lp ''example.org'' in
           if sim_taken user_id w = [] then (Inr user_id, w\<lparr>users := users w @ [user_id]\<rparr>)
           else (Inl (SynapseError 400 ''User ID already taken.'' USER_IN_USE), w)),
      complete_sso_login =
        (\<lambda>user_id request url extra w. (Inr (), w\<lparr>logins := logins w @ [user_id]\<rparr>))\<rparr>"

definition sim_w0 :: sim_world where
  "sim_w0 =
     \<lparr>now_ms = 1000, random_strings = [''abcdefghijklmnop''],
      user_external_ids = [((''oidc'', ''abc''), ''@alice:example.org'')],
      users = [''@alice:example.org'', ''@Bob:example.org''], logins = [], mapper_calls = []\<rparr>"

definition sim_self0 :: "sim_world SsoHandler" where
  "sim_self0 = \<lparr>username_mapping_sessions = [], identity_providers = [], world = sim_w0\<rparr>"

text \<open>A mapper that answers \<open>f i\<close> at attempt \<open>i\<close> and records the call.\<close>

definition sim_mapper :: "(nat \<Rightarrow> exn + UserAttributes) \<Rightarrow> sim_world mapper" where
  "sim_mapper f i w = (f i, w\<lparr>mapper_calls := mapper_calls w @ [i]\<rparr>)"

definition attrs :: "string option \<Rightarrow> UserAttributes" where
  "attrs lp = \<lparr>localpart = lp, display_name = Some ''Bob'', emails = [''bob@example.org'']\<rparr>"

text \<open>A mapper that answers the listed localparts in turn, and the last one from then on.\<close>

definition sim_answers :: "string option list \<Rightarrow> sim_world mapper" where
  "sim_answers lps = sim_mapper (\<lambda>i. Inr (attrs (lps ! min i (length lps - 1))))"

text \<open>A mapper that answers \<^verbatim>\<open>bob\<close> at attempt 0 and raises \<open>e\<close> afterwards.\<close>

definition sim_raises :: "exn \<Rightarrow> sim_world mapper" where
  "sim_raises e = sim_mapper (\<lambda>i. if i = 0 then Inr (attrs (Some ''bob'')) else Inl e)"

definition sim_request :: SynapseRequest where
  "sim_request = \<lparr>user_agent = Some ''Mozilla'', client_ip = ''10.0.0.1'', cookies = []\<rparr>"

text \<open>Grandfathering callbacks: one finds nobody, one raises.\<close>

definition sim_no_grandfather :: "sim_world grandfather" where
  "sim_no_grandfather w = (Inr None, w)"

definition sim_failing_grandfather :: "sim_world grandfather" where
  "sim_failing_grandfather w = (Inl (OtherException ''grandfather called''), w)"

text \<open>Two providers that answer with a redirect URI of their own.\<close>

definition sim_idp :: "string \<Rightarrow> sim_world SsoIdentityProvider" where
  "sim_idp name =
     \<lparr>idp_id = name, idp_name = name,
      idp_handle_redirect_request =
        (\<lambda>request url ui_auth_session_id w.
           (Inr (''https://'' @ name @ ''.example/auth?next='' @ format_s url), w))\<rparr>"

text \<open>
  The handler with one picker session, created at the clock reading 1000 for the remote
  user \<^verbatim>\<open>("oidc", "new")\<close>.
\<close>

definition sim_session :: UsernameMappingSession where
  "sim_session =
     \<lparr>auth_provider_id = ''oidc'', remote_user_id = ''new'',
      display_name = Some ''Bob'', emails = [''bob@example.org''],
      extra_login_attributes = None, client_redirect_url = ''https://client.example/'',
      expiry_time_ms = 901000\<rparr>"

definition sim_self1 :: "sim_world SsoHandler" where
  "sim_self1 =
     \<lparr>username_mapping_sessions = [(''abcdefghijklmnop'', sim_session)],
      identity_providers = [],
      world = sim_w0\<lparr>random_strings := []\<rparr>\<rparr>"

definition sim_cleared_cookie :: Cookie where
  "sim_cleared_cookie =
     \<lparr>cookie_name = ''username_mapping_session'', cookie_value = '''',
      cookie_expires = Some ''Thu, 01 Jan 1970 00:00:00 GMT'', cookie_path = Some ''/''\<rparr>"

section \<open>The attribute mapping loop\<close>

lemma attempts_world_0: "attempts_world m 0 w = w"
  by (simp add: attempts_world_def)

lemma attempts_world_Suc: "attempts_world m (Suc k) w = snd (m k (attempts_world m k w))"
  by (simp add: attempts_world_def)

text \<open>One iteration, by what attempt \<open>i\<close> does: it collides, it settles, or it raises.\<close>

lemma loop_collides_step:
  assumes "collides hs m i (world self)"
  shows "call_attribute_mapper_loop hs m (i # rest) self =
         call_attribute_mapper_loop hs m rest (self\<lparr>world := snd (m i (world self))\<rparr>)"
  using assms
  by (auto simp: collides_def in_world_def split: prod.splits sum.splits option.splits)

lemma loop_settles_step:
  assumes "m i (world self) = (Inr attributes, w')" and "settles hs attributes w'"
  shows "call_attribute_mapper_loop hs m (i # rest) self = (Inr attributes, self\<lparr>world := w'\<rparr>)"
  using assms by (auto simp: settles_def in_world_def split: option.splits)

lemma loop_raises_step:
  assumes "m i (world self) = (Inl e, w')"
  shows "call_attribute_mapper_loop hs m (i # rest) self =
         (Inl (case e of
                 RedirectException _ _ \<Rightarrow> e
               | MappingException _ _ \<Rightarrow> e
               | _ \<Rightarrow> MappingException ''Could not extract user attributes from SSO response.''
                        (Some e)),
          self\<lparr>world := w'\<rparr>)"
  using assms by (cases e) (simp_all add: in_world_def)

text \<open>While the attempts collide, the loop goes on to the next index.\<close>

lemma loop_skip_collisions:
  assumes "\<forall>j<k. collides hs m j (attempts_world m j (world self))" and "k \<le> n"
  shows "call_attribute_mapper_loop hs m [0..<n] self =
         call_attribute_mapper_loop hs m [k..<n] (self\<lparr>world := attempts_world m k (world self)\<rparr>)"
  using assms
proof (induction k)
  case 0
  then show ?case by (simp add: attempts_world_0)
next
  case (Suc k)
  have "call_attribute_mapper_loop hs m [0..<n] self =
        call_attribute_mapper_loop hs m [k..<n] (self\<lparr>world := attempts_world m k (world self)\<rparr>)"
    using Suc by simp
  also have "[k..<n] = k # [Suc k..<n]"
    using Suc.prems by (simp add: upt_conv_Cons)
  also have "call_attribute_mapper_loop hs m (k # [Suc k..<n])
               (self\<lparr>world := attempts_world m k (world self)\<rparr>) =
             call_attribute_mapper_loop hs m [Suc k..<n]
               (self\<lparr>world := attempts_world m (Suc k) (world self)\<rparr>)"
    using Suc.prems by (subst loop_collides_step) (simp_all add: attempts_world_Suc)
  finally show ?case .
qed

lemma sim_mapper_world:
  "attempts_world (sim_mapper f) k w = w\<lparr>mapper_calls := mapper_calls w @ [0..<k]\<rparr>"
  by (induction k) (simp_all add: attempts_world_0 attempts_world_Suc sim_mapper_def)

lemma sim_taken_bob:
  assumes "users w = [''@alice:example.org'', ''@Bob:example.org'']"
  shows "sim_taken ''@bob:example.org'' w = [''@Bob:example.org'']"
  using assms by (simp add: sim_taken_def lower_char_def)

text \<open>
  C1. If every attempt of the mapper, run in turn, returns a non-empty localpart whose
  user id is taken (under the case-insensitive lookup of the store), the loop raises the
  \<^verbatim>\<open>MappingException\<close> of its \<^verbatim>\<open>else\<close> branch, and the world it leaves is the one
  after the calls of the mapper at the indices \<open>0, ..., 999\<close>, once each and in this
  order: \<open>MAP_USERNAME_RETRIES = 1000\<close> calls, no more and no fewer.
\<close>

theorem call_attribute_mapper_exhausts_retries:
  assumes "\<forall>j<MAP_USERNAME_RETRIES. collides hs m j (attempts_world m j (world self))"
  shows "call_attribute_mapper hs m self =
           (Inl (MappingException ''Unable to generate a Matrix ID from the SSO response'' None),
            self\<lparr>world := fold (\<lambda>i w. snd (m i w)) [0..<1000] (world self)\<rparr>)"
proof -
  have "call_attribute_mapper hs m self =
        call_attribute_mapper_loop hs m [MAP_USERNAME_RETRIES..<MAP_USERNAME_RETRIES]
          (self\<lparr>world := attempts_world m MAP_USERNAME_RETRIES (world self)\<rparr>)"
    unfolding call_attribute_mapper_def using assms by (rule loop_skip_collisions) simp
  then show ?thesis
    by (simp add: attempts_world_def MAP_USERNAME_RETRIES_def)
qed

text \<open>
  In the example deployment \<^verbatim>\<open>@Bob:example.org\<close> is registered and the mapper always
  answers \<^verbatim>\<open>bob\<close>: the loop fails, and the mapper has recorded the calls
  \<open>0, ..., 999\<close>.
\<close>

theorem call_attribute_mapper_exhausts_retries_witness:
  "fst (call_attribute_mapper sim_hs (sim_mapper (\<lambda>i. Inr (attrs (Some ''bob'')))) sim_self0) =
     Inl (MappingException ''Unable to generate a Matrix ID from the SSO response'' None) \<and>
   mapper_calls (world (snd (call_attribute_mapper sim_hs
     (sim_mapper (\<lambda>i. Inr (attrs (Some ''bob'')))) sim_self0))) = [0..<1000] \<and>
   length (mapper_calls (world (snd (call_attribute_mapper sim_hs
     (sim_mapper (\<lambda>i. Inr (attrs (Some ''bob'')))) sim_self0)))) = 1000"
proof -
  have hyp: "\<forall>j<MAP_USERNAME_RETRIES.
          collides sim_hs (sim_mapper (\<lambda>i. Inr (attrs (Some ''bob'')))) j
            (attempts_world (sim_mapper (\<lambda>i. Inr (attrs (Some ''bob'')))) j (world sim_self0))"
    by (simp add: collides_def sim_mapper_world sim_mapper_def attrs_def sim_hs_def
        UserID_to_string_def sim_taken_bob sim_self0_def sim_w0_def)
  have w: "fold (\<lambda>i w. snd (sim_mapper (\<lambda>i. Inr (attrs (Some ''bob''))) i w)) [0..<1000] w0 =
        w0\<lparr>mapper_calls := mapper_calls w0 @ [0..<1000]\<rparr>" for w0
    using sim_mapper_world [of "\<lambda>i. Inr (attrs (Some ''bob''))" 1000 w0]
    by (simp add: attempts_world_def)
  show ?thesis
    using call_attribute_mapper_exhausts_retries [OF hyp]
    by (simp add: w sim_self0_def sim_w0_def)
qed

text \<open>The loop after \<open>k\<close> colliding attempts, when attempt \<open>k\<close> settles or raises.\<close>

lemma call_attribute_mapper_settles_at:
  assumes "k < MAP_USERNAME_RETRIES"
    and "\<forall>j<k. collides hs m j (attempts_world m j (world self))"
    and "m k (attempts_world m k (world self)) = (Inr attributes, w')"
    and "settles hs attributes w'"
  shows "call_attribute_mapper hs m self = (Inr attributes, self\<lparr>world := w'\<rparr>)"
proof -
  have "call_attribute_mapper hs m self =
        call_attribute_mapper_loop hs m [k..<MAP_USERNAME_RETRIES]
          (self\<lparr>world := attempts_world m k (world self)\<rparr>)"
    unfolding call_attribute_mapper_def using assms(2,1) by (intro loop_skip_collisions) simp_all
  also have "[k..<MAP_USERNAME_RETRIES] = k # [Suc k..<MAP_USERNAME_RETRIES]"
    using assms(1) by (simp add: upt_conv_Cons)
  also have "call_attribute_mapper_loop hs m (k # [Suc k..<MAP_USERNAME_RETRIES])
               (self\<lparr>world := attempts_world m k (world self)\<rparr>) =
             (Inr attributes, self\<lparr>world := w'\<rparr>)"
    using assms(3,4) by (subst loop_settles_step [where attributes = attributes and w' = w']) simp_all
  finally show ?thesis .
qed

lemma call_attribute_mapper_raises_at:
  assumes "k < MAP_USERNAME_RETRIES"
    and "\<forall>j<k. collides hs m j (attempts_world m j (world self))"
    and "m k (attempts_world m k (world self)) = (Inl e, w')"
  shows "call_attribute_mapper hs m self =
           (Inl (if passes_through e then e
                 else MappingException ''Could not extract user attributes from SSO response.''
                        (Some e)),
            self\<lparr>world := w'\<rparr>)"
proof -
  have "call_attribute_mapper hs m self =
        call_attribute_mapper_loop hs m [k..<MAP_USERNAME_RETRIES]
          (self\<lparr>world := attempts_world m k (world self)\<rparr>)"
    unfolding call_attribute_mapper_def using assms(2,1) by (intro loop_skip_collisions) simp_all
  also have "[k..<MAP_USERNAME_RETRIES] = k # [Suc k..<MAP_USERNAME_RETRIES]"
    using assms(1) by (simp add: upt_conv_Cons)
  also have "call_attribute_mapper_loop hs m (k # [Suc k..<MAP_USERNAME_RETRIES])
               (self\<lparr>world := attempts_world m k (world self)\<rparr>) =
             (Inl (if passes_through e then e
                 else MappingException ''Could not extract user attributes from SSO response.''
                        (Some e)),
            self\<lparr>world := w'\<rparr>)"
    using assms(3) by (subst loop_raises_step [where e = e and w' = w']) (cases e; simp)+
  finally show ?thesis .
qed

lemma sim_taken_bob2:
  assumes "users w = [''@alice:example.org'', ''@Bob:example.org'']"
  shows "sim_taken ''@bob2:example.org'' w = []"
  using assms by (simp add: sim_taken_def lower_char_def)

text \<open>
  C2. Let the attempts \<open>0, ..., k - 1\<close> of the mapper, run in turn, each return a
  non-empty localpart whose user id is taken, and let attempt \<open>k\<close> (below the bound)
  return attributes whose localpart is absent, or empty, or has a user id that no account
  owns under the case-insensitive lookup. Then the loop went on from each of the first
  \<open>k\<close> attempts to the next one, stops at attempt \<open>k\<close>, and returns its attributes
  unchanged; the world is the one attempt \<open>k\<close> left, so the mapper is not called again.
\<close>

theorem call_attribute_mapper_returns_first_settled:
  assumes "k < MAP_USERNAME_RETRIES"
    and "\<forall>j<k. collides hs m j (attempts_world m j (world self))"
    and "m k (attempts_world m k (world self)) = (Inr attributes, w')"
    and "localpart attributes = None \<or> localpart attributes = Some [] \<or>
         (\<exists>lp. localpart attributes = Some lp \<and>
            get_users_by_id_case_insensitive hs (UserID_to_string lp (hostname hs)) w' = [])"
  shows "call_attribute_mapper hs m self = (Inr attributes, self\<lparr>world := w'\<rparr>)"
  using assms(1-3)
proof (rule call_attribute_mapper_settles_at)
  show "settles hs attributes w'"
    using assms(4) by (auto simp: settles_def)
qed

text \<open>
  In the example deployment: \<^verbatim>\<open>bob\<close> is taken and \<^verbatim>\<open>bob2\<close> is free, so the loop
  returns \<^verbatim>\<open>bob2\<close> after two calls; an empty localpart at attempt 1 and an absent one
  at attempt 0 are returned as they are.
\<close>

theorem call_attribute_mapper_returns_first_settled_witness:
  "call_attribute_mapper sim_hs (sim_answers [Some ''bob'', Some ''bob2'']) sim_self0 =
     (Inr (attrs (Some ''bob2'')), sim_self0\<lparr>world := sim_w0\<lparr>mapper_calls := [0, 1]\<rparr>\<rparr>) \<and>
   call_attribute_mapper sim_hs (sim_answers [Some ''bob'', Some '''']) sim_self0 =
     (Inr (attrs (Some '''')), sim_self0\<lparr>world := sim_w0\<lparr>mapper_calls := [0, 1]\<rparr>\<rparr>) \<and>
   call_attribute_mapper sim_hs (sim_answers [None]) sim_self0 =
     (Inr (attrs None), sim_self0\<lparr>world := sim_w0\<lparr>mapper_calls := [0]\<rparr>\<rparr>)"
proof -
  have 1: "call_attribute_mapper sim_hs (sim_answers [Some ''bob'', Some ''bob2'']) sim_self0 =
     (Inr (attrs (Some ''bob2'')), sim_self0\<lparr>world := sim_w0\<lparr>mapper_calls := [0, 1]\<rparr>\<rparr>)"
    by (rule call_attribute_mapper_returns_first_settled [where k = 1])
      (simp_all add: MAP_USERNAME_RETRIES_def collides_def attempts_world_0 attempts_world_Suc
        sim_answers_def sim_mapper_def attrs_def sim_hs_def UserID_to_string_def
        sim_self0_def sim_w0_def sim_taken_bob sim_taken_bob2)
  have 2: "call_attribute_mapper sim_hs (sim_answers [Some ''bob'', Some '''']) sim_self0 =
     (Inr (attrs (Some '''')), sim_self0\<lparr>world := sim_w0\<lparr>mapper_calls := [0, 1]\<rparr>\<rparr>)"
    by (rule call_attribute_mapper_returns_first_settled [where k = 1])
      (simp_all add: MAP_USERNAME_RETRIES_def collides_def attempts_world_0 attempts_world_Suc
        sim_answers_def sim_mapper_def attrs_def sim_hs_def UserID_to_string_def
        sim_self0_def sim_w0_def sim_taken_bob)
  have 3: "call_attribute_mapper sim_hs (sim_answers [None]) sim_self0 =
     (Inr (attrs None), sim_self0\<lparr>world := sim_w0\<lparr>mapper_calls := [0]\<rparr>\<rparr>)"
    by (rule call_attribute_mapper_returns_first_settled [where k = 0])
      (simp_all add: MAP_USERNAME_RETRIES_def attempts_world_0
        sim_answers_def sim_mapper_def attrs_def sim_self0_def sim_w0_def)
  from 1 2 3 show ?thesis by blast
qed

text \<open>
  C5. Let the attempts \<open>0, ..., k - 1\<close> collide and let attempt \<open>k\<close> raise \<open>e\<close>. If \<open>e\<close> is
  a \<^verbatim>\<open>RedirectException\<close> or a \<^verbatim>\<open>MappingException\<close>, the loop raises \<open>e\<close> itself. Any
  other exception is replaced by a \<^verbatim>\<open>MappingException\<close> whose message is one fixed
  text, the same for every \<open>e\<close>; the original exception is kept as the
  \<^verbatim>\<open>__cause__\<close> only.
\<close>

theorem call_attribute_mapper_exceptions:
  assumes "k < MAP_USERNAME_RETRIES"
    and "\<forall>j<k. collides hs m j (attempts_world m j (world self))"
    and "m k (attempts_world m k (world self)) = (Inl e, w')"
  shows "(passes_through e \<longrightarrow> call_attribute_mapper hs m self = (Inl e, self\<lparr>world := w'\<rparr>)) \<and>
         (\<not> passes_through e \<longrightarrow>
            call_attribute_mapper hs m self =
              (Inl (MappingException ''Could not extract user attributes from SSO response.''
                      (Some e)), self\<lparr>world := w'\<rparr>) \<and>
            message (projl (fst (call_attribute_mapper hs m self))) =
              ''Could not extract user attributes from SSO response.'')"
  using call_attribute_mapper_raises_at [OF assms] by simp

theorem call_attribute_mapper_exceptions_witness:
  "call_attribute_mapper sim_hs (sim_raises (RedirectException ''/consent'' [])) sim_self0 =
     (Inl (RedirectException ''/consent'' []),
      sim_self0\<lparr>world := sim_w0\<lparr>mapper_calls := [0, 1]\<rparr>\<rparr>) \<and>
   call_attribute_mapper sim_hs (sim_raises (MappingException ''no email'' None)) sim_self0 =
     (Inl (MappingException ''no email'' None),
      sim_self0\<lparr>world := sim_w0\<lparr>mapper_calls := [0, 1]\<rparr>\<rparr>) \<and>
   call_attribute_mapper sim_hs (sim_raises (OtherException ''secret detail'')) sim_self0 =
     (Inl (MappingException ''Could not extract user attributes from SSO response.''
             (Some (OtherException ''secret detail''))),
      sim_self0\<lparr>world := sim_w0\<lparr>mapper_calls := [0, 1]\<rparr>\<rparr>)"
proof -
  have hyps: "(1::nat) < MAP_USERNAME_RETRIES"
    "\<forall>j<1. collides sim_hs (sim_raises e) j (attempts_world (sim_raises e) j (world sim_self0))"
    "sim_raises e 1 (attempts_world (sim_raises e) 1 (world sim_self0)) =
       (Inl e, sim_w0\<lparr>mapper_calls := [0, 1]\<rparr>)" for e
    by (simp_all add: MAP_USERNAME_RETRIES_def collides_def sim_raises_def sim_mapper_world
        sim_mapper_def attrs_def sim_hs_def UserID_to_string_def sim_taken_bob
        sim_self0_def sim_w0_def)
  show ?thesis
    using call_attribute_mapper_exceptions [OF hyps, of "RedirectException ''/consent'' []"]
      call_attribute_mapper_exceptions [OF hyps, of "MappingException ''no email'' None"]
      call_attribute_mapper_exceptions [OF hyps, of "OtherException ''secret detail''"]
    by simp
qed

section \<open>Registration\<close>

lemma register_mapped_user_invalid:
  assumes "invalid_localpart hs (localpart attributes)"
  shows "register_mapped_user hs attributes p r ua ip self =
           (Inl (MappingException (''localpart is invalid: '' @ format_s (localpart attributes))
                   None), self)"
  using assms by (auto simp: invalid_localpart_def register_mapped_user_def split: option.splits)

lemma register_mapped_user_created:
  assumes "localpart attributes = Some lp" and "\<not> invalid_localpart hs (Some lp)"
    and "register_user hs lp (UserAttributes.display_name attributes)
           (UserAttributes.emails attributes) [(ua, ip)] (world self) = (Inr user_id, w1)"
  shows "register_mapped_user hs attributes p r ua ip self =
           (Inr user_id, self\<lparr>world := record_user_external_id hs p r user_id w1\<rparr>)"
  using assms
  by (simp add: invalid_localpart_def register_mapped_user_def and_then_def in_world_def)

lemma register_mapped_user_refused:
  assumes "localpart attributes = Some lp" and "\<not> invalid_localpart hs (Some lp)"
    and "register_user hs lp (UserAttributes.display_name attributes)
           (UserAttributes.emails attributes) [(ua, ip)] (world self) = (Inl e, w1)"
  shows "register_mapped_user hs attributes p r ua ip self = (Inl e, self\<lparr>world := w1\<rparr>)"
  using assms
  by (simp add: invalid_localpart_def register_mapped_user_def and_then_def in_world_def)

text \<open>
  C4. When the localpart is absent, empty or has a forbidden character,
  \<^verbatim>\<open>_register_mapped_user\<close> raises a \<^verbatim>\<open>MappingException\<close> and leaves the handler
  and the world as they were, whatever \<^verbatim>\<open>register_user\<close> and
  \<^verbatim>\<open>record_user_external_id\<close> would do: neither is called. When the localpart passes
  and \<^verbatim>\<open>register_user\<close> returns a user id, the link from the provider and remote user
  id to this user id is recorded on the world that the registration left, and this user
  id is returned.
\<close>

theorem register_mapped_user_validates_then_links:
  "(invalid_localpart hs (localpart attributes) \<longrightarrow>
      register_mapped_user hs attributes p r ua ip self =
        (Inl (MappingException (''localpart is invalid: '' @ format_s (localpart attributes))
                None), self)) \<and>
   (\<forall>lp user_id w1.
      localpart attributes = Some lp \<and> \<not> invalid_localpart hs (Some lp) \<and>
      register_user hs lp (UserAttributes.display_name attributes)
        (UserAttributes.emails attributes) [(ua, ip)] (world self) = (Inr user_id, w1) \<longrightarrow>
      register_mapped_user hs attributes p r ua ip self =
        (Inr user_id, self\<lparr>world := record_user_external_id hs p r user_id w1\<rparr>))"
proof (intro conjI impI allI)
  assume "invalid_localpart hs (localpart attributes)"
  then show "register_mapped_user hs attributes p r ua ip self =
        (Inl (MappingException (''localpart is invalid: '' @ format_s (localpart attributes))
                None), self)"
    by (rule register_mapped_user_invalid)
next
  fix lp user_id w1
  assume "localpart attributes = Some lp \<and> \<not> invalid_localpart hs (Some lp) \<and>
      register_user hs lp (UserAttributes.display_name attributes)
        (UserAttributes.emails attributes) [(ua, ip)] (world self) = (Inr user_id, w1)"
  then show "register_mapped_user hs attributes p r ua ip self =
        (Inr user_id, self\<lparr>world := record_user_external_id hs p r user_id w1\<rparr>)"
    by (simp add: register_mapped_user_created)
qed

lemma sim_invalid_Bad: "contains_invalid_mxid_characters sim_hs ''Bad Name''"
  by (simp add: sim_hs_def)

lemma sim_valid_bob2: "\<not> contains_invalid_mxid_characters sim_hs ''bob2''"
  by (simp add: sim_hs_def)

text \<open>
  In the example deployment: an absent, an empty and an ill-formed localpart are
  refused with nothing written; \<^verbatim>\<open>bob2\<close> is registered and linked.
\<close>

theorem register_mapped_user_validates_then_links_witness:
  "register_mapped_user sim_hs (attrs None) ''oidc'' ''xyz'' ''Mozilla'' ''10.0.0.1'' sim_self0 =
     (Inl (MappingException ''localpart is invalid: None'' None), sim_self0) \<and>
   register_mapped_user sim_hs (attrs (Some '''')) ''oidc'' ''xyz'' ''Mozilla'' ''10.0.0.1'' sim_self0 =
     (Inl (MappingException ''localpart is invalid: '' None), sim_self0) \<and>
   register_mapped_user sim_hs (attrs (Some ''Bad Name'')) ''oidc'' ''xyz'' ''Mozilla'' ''10.0.0.1''
       sim_self0 =
     (Inl (MappingException ''localpart is invalid: Bad Name'' None), sim_self0) \<and>
   register_mapped_user sim_hs (attrs (Some ''bob2'')) ''oidc'' ''xyz'' ''Mozilla'' ''10.0.0.1''
       sim_self0 =
     (Inr ''@bob2:example.org'',
      sim_self0\<lparr>world := sim_w0
        \<lparr>user_external_ids := [((''oidc'', ''abc''), ''@alice:example.org''),
                                ((''oidc'', ''xyz''), ''@bob2:example.org'')],
         users := [''@alice:example.org'', ''@Bob:example.org'', ''@bob2:example.org'']\<rparr>\<rparr>)"
proof -
  have reg: "register_user sim_hs ''bob2'' (UserAttributes.display_name (attrs (Some ''bob2'')))
        (UserAttributes.emails (attrs (Some ''bob2''))) [(''Mozilla'', ''10.0.0.1'')] (world sim_self0) =
      (Inr ''@bob2:example.org'',
       sim_w0\<lparr>users := [''@alice:example.org'', ''@Bob:example.org'', ''@bob2:example.org'']\<rparr>)"
    by (simp add: sim_hs_def sim_self0_def sim_w0_def UserID_to_string_def sim_taken_bob2 Let_def)
  show ?thesis
    using register_mapped_user_validates_then_links
        [of sim_hs "attrs None" "''oidc''" "''xyz''" "''Mozilla''" "''10.0.0.1''" sim_self0]
      register_mapped_user_validates_then_links
        [of sim_hs "attrs (Some '''')" "''oidc''" "''xyz''" "''Mozilla''" "''10.0.0.1''" sim_self0]
      register_mapped_user_validates_then_links
        [of sim_hs "attrs (Some ''Bad Name'')" "''oidc''" "''xyz''" "''Mozilla''" "''10.0.0.1''"
          sim_self0]
      register_mapped_user_validates_then_links
        [of sim_hs "attrs (Some ''bob2'')" "''oidc''" "''xyz''" "''Mozilla''" "''10.0.0.1''"
          sim_self0, THEN conjunct2, rule_format, OF conjI [OF _ conjI [OF _ reg]]]
    by (simp_all add: invalid_localpart_def attrs_def sim_invalid_Bad sim_valid_bob2)
      (simp add: sim_hs_def sim_self0_def sim_w0_def)
qed

section \<open>Completing a login\<close>

text \<open>
  C10. If the store maps the provider and remote user id to a user id (a non-empty
  string), \<^verbatim>\<open>complete_sso_login_request\<close> does what the call of
  \<^verbatim>\<open>complete_sso_login\<close> with exactly this user id does on the handler as it stood, and
  nothing else. This holds for every grandfathering callback and every mapper, also
  those that raise or write the world, so neither is invoked; no user is registered and
  no link is recorded before the login is handed over; the session table is unchanged.
\<close>

theorem complete_sso_login_request_existing_link:
  assumes "get_user_by_external_id hs p r (world self) = Some user_id" and "user_id \<noteq> []"
  shows "complete_sso_login_request hs p r request url m grandfather extra self =
           in_world (complete_sso_login hs user_id request url extra) self \<and>
         username_mapping_sessions
           (snd (complete_sso_login_request hs p r request url m grandfather extra self)) =
           username_mapping_sessions self \<and>
         world (snd (complete_sso_login_request hs p r request url m grandfather extra self)) =
           snd (complete_sso_login hs user_id request url extra (world self))"
proof -
  have "complete_sso_login_request hs p r request url m grandfather extra self =
        in_world (complete_sso_login hs user_id request url extra) self"
    using assms
    by (simp add: complete_sso_login_request_def and_then_def get_sso_user_by_remote_user_id_def)
  then show ?thesis
    by (simp add: in_world_def split: prod.splits)
qed

text \<open>
  In the example deployment the link \<^verbatim>\<open>("oidc", "abc")\<close> to \<^verbatim>\<open>@alice:example.org\<close>
  exists: the login completes for this user although the grandfathering callback and the
  mapper given would raise; the link table, the users and the sessions are as before.
\<close>

theorem complete_sso_login_request_existing_link_witness:
  "complete_sso_login_request sim_hs ''oidc'' ''abc'' sim_request ''https://client.example/''
     (sim_raises (OtherException ''mapper called'')) sim_failing_grandfather None sim_self0 =
   (Inr (), sim_self0\<lparr>world := sim_w0\<lparr>logins := [''@alice:example.org'']\<rparr>\<rparr>)"
proof -
  have link: "get_user_by_external_id sim_hs ''oidc'' ''abc'' (world sim_self0) =
      Some ''@alice:example.org''"
    by (simp add: sim_hs_def sim_self0_def sim_w0_def)
  have nonempty: "''@alice:example.org'' \<noteq> []"
    by simp
  show ?thesis
    using complete_sso_login_request_existing_link [OF link nonempty, of sim_request
        "''https://client.example/''" "sim_raises (OtherException ''mapper called'')"
        sim_failing_grandfather None]
    by (simp add: in_world_def sim_hs_def sim_self0_def sim_w0_def)
qed

text \<open>The path of \<^verbatim>\<open>complete_sso_login_request\<close> for a user that is new.\<close>

lemma complete_sso_login_request_new_user:
  assumes "\<not> truthy (get_user_by_external_id hs p r (world self))"
    and "grandfather (world self) = (Inr g, wg)" and "\<not> truthy g"
    and "call_attribute_mapper hs m (self\<lparr>world := wg\<rparr>) = (Inr attributes, selfm)"
  shows "complete_sso_login_request hs p r request url m grandfather extra self =
           (if localpart attributes = None then
              (case redirect_to_username_picker hs p r attributes url extra selfm of
                 (e, self3) \<Rightarrow> (Inl e, self3))
            else
              and_then
                (register_mapped_user hs attributes p r (get_user_agent request '''')
                   (getClientIP request))
                (\<lambda>user_id. in_world (complete_sso_login hs user_id request url extra))
                selfm)"
proof -
  have lookup: "get_sso_user_by_remote_user_id hs p r self = get_user_by_external_id hs p r (world self)"
    by (simp add: get_sso_user_by_remote_user_id_def split: option.splits)
  show ?thesis
    using assms
    by (simp add: complete_sso_login_request_def lookup and_then_def in_world_def
        split: prod.splits)
qed

text \<open>
  C3, as stated, fails for an empty localpart. In the example deployment the remote user
  \<^verbatim>\<open>("oidc", "new")\<close> has no link, nobody is grandfathered and the mapper answers the
  localpart \<^verbatim>\<open>""\<close>: the request ends with the \<^verbatim>\<open>MappingException\<close> of
  \<^verbatim>\<open>_register_mapped_user\<close>, not with a redirect, and no session is created.
\<close>

theorem complete_sso_login_request_empty_localpart_counterexample:
  "complete_sso_login_request sim_hs ''oidc'' ''new'' sim_request ''https://client.example/''
     (sim_answers [Some '''']) sim_no_grandfather None sim_self0 =
   (Inl (MappingException ''localpart is invalid: '' None),
    \<lparr>username_mapping_sessions = [], identity_providers = [],
     world = sim_w0\<lparr>mapper_calls := [0]\<rparr>\<rparr>)"
proof -
  have loop: "call_attribute_mapper sim_hs (sim_answers [Some '''']) (sim_self0\<lparr>world := sim_w0\<rparr>) =
      (Inr (attrs (Some '''')), sim_self0\<lparr>world := sim_w0\<lparr>mapper_calls := [0]\<rparr>\<rparr>)"
    using call_attribute_mapper_settles_at [where k = 0 and hs = sim_hs
        and m = "sim_answers [Some '''']" and self = "sim_self0\<lparr>world := sim_w0\<rparr>"
        and attributes = "attrs (Some '''')" and w' = "sim_w0\<lparr>mapper_calls := [0]\<rparr>"]
    by (simp add: MAP_USERNAME_RETRIES_def attempts_world_0 settles_def
        sim_answers_def sim_mapper_def attrs_def sim_self0_def sim_w0_def)
  have "complete_sso_login_request sim_hs ''oidc'' ''new'' sim_request ''https://client.example/''
     (sim_answers [Some '''']) sim_no_grandfather None sim_self0 =
     and_then
       (register_mapped_user sim_hs (attrs (Some '''')) ''oidc'' ''new''
          (get_user_agent sim_request '''') (getClientIP sim_request))
       (\<lambda>user_id. in_world (complete_sso_login sim_hs user_id sim_request
                               ''https://client.example/'' None))
       (sim_self0\<lparr>world := sim_w0\<lparr>mapper_calls := [0]\<rparr>\<rparr>)"
    using complete_sso_login_request_new_user [where hs = sim_hs and p = "''oidc''"
        and r = "''new''" and self = sim_self0 and grandfather = sim_no_grandfather
        and g = None and wg = sim_w0 and m = "sim_answers [Some '''']"
        and attributes = "attrs (Some '''')"
        and selfm = "sim_self0\<lparr>world := sim_w0\<lparr>mapper_calls := [0]\<rparr>\<rparr>"
        and request = sim_request and url = "''https://client.example/''" and extra = None]
      loop
    by (simp add: sim_hs_def sim_self0_def sim_w0_def sim_no_grandfather_def attrs_def)
  then show ?thesis
    by (simp add: register_mapped_user_def and_then_def attrs_def sim_self0_def)
qed

text \<open>
  C3, amended to the absent localpart. Let no link exist, let the grandfathering callback
  return nobody, let the attempts \<open>0, ..., k - 1\<close> of the mapper collide and attempt \<open>k\<close>
  return attributes whose localpart is \<^verbatim>\<open>None\<close>. Then, for a session id of ASCII
  characters from the random source, the request ends with the \<^verbatim>\<open>RedirectException\<close>
  to \<^verbatim>\<open>/_synapse/client/pick_username\<close> that sets the session cookie, and the handler
  holds the new \<open>UsernameMappingSession\<close> under this id. The world is the one the random
  source left: no user is registered, no link is recorded and no login is completed.
\<close>

theorem complete_sso_login_request_redirects_to_picker:
  assumes "\<not> truthy (get_user_by_external_id hs p r (world self))"
    and "grandfather (world self) = (Inr g, wg)" and "\<not> truthy g"
    and "k < MAP_USERNAME_RETRIES"
    and "\<forall>j<k. collides hs m j (attempts_world m j wg)"
    and "m k (attempts_world m k wg) = (Inr attributes, wm)"
    and "localpart attributes = None"
    and "random_string hs 16 wm = (session_id, wr)"
    and "list_all (\<lambda>c. (of_char c :: nat) < 128) session_id"
  shows "complete_sso_login_request hs p r request url m grandfather extra self =
           (Inl (RedirectException ''/_synapse/client/pick_username''
                   [''username_mapping_session='' @ session_id @ ''; path=/'']),
            self\<lparr>username_mapping_sessions :=
                   dict_set session_id
                     \<lparr>auth_provider_id = p, remote_user_id = r,
                      display_name = UserAttributes.display_name attributes,
                      emails = UserAttributes.emails attributes,
                      extra_login_attributes = extra, client_redirect_url = url,
                      expiry_time_ms = time_msec hs wr + 15 * 60 * 1000\<rparr>
                     (username_mapping_sessions self),
                 world := wr\<rparr>)"
proof -
  have "call_attribute_mapper hs m (self\<lparr>world := wg\<rparr>) =
      (Inr attributes, self\<lparr>world := wg\<rparr>\<lparr>world := wm\<rparr>)"
    using assms(4-7)
    by (intro call_attribute_mapper_settles_at [where k = k]) (simp_all add: settles_def)
  then have loop: "call_attribute_mapper hs m (self\<lparr>world := wg\<rparr>) =
      (Inr attributes, self\<lparr>world := wm\<rparr>)"
    by simp
  have "complete_sso_login_request hs p r request url m grandfather extra self =
      (case redirect_to_username_picker hs p r attributes url extra (self\<lparr>world := wm\<rparr>) of
         (e, self3) \<Rightarrow> (Inl e, self3))"
    using complete_sso_login_request_new_user [where hs = hs and p = p and r = r
        and self = self and grandfather = grandfather and g = g and wg = wg and m = m
        and attributes = attributes and selfm = "self\<lparr>world := wm\<rparr>"
        and request = request and url = url and extra = extra]
      assms(1-3,7) loop
    by simp
  then show ?thesis
    using assms(8,9)
    by (simp add: redirect_to_username_picker_def encode_ascii_def
        USERNAME_MAPPING_SESSION_COOKIE_NAME_def MAPPING_SESSION_VALIDITY_PERIOD_MS_def)
qed

text \<open>
  In the example deployment the mapper answers \<^verbatim>\<open>bob\<close> (taken), then no localpart: the
  session is stored under the next random string, with the expiry 15 minutes after the
  clock reading 1000.
\<close>

theorem complete_sso_login_request_redirects_to_picker_witness:
  "complete_sso_login_request sim_hs ''oidc'' ''new'' sim_request ''https://client.example/''
     (sim_answers [Some ''bob'', None]) sim_no_grandfather None sim_self0 =
   (Inl (RedirectException ''/_synapse/client/pick_username''
           [''username_mapping_session=abcdefghijklmnop; path=/'']),
    \<lparr>username_mapping_sessions =
       [(''abcdefghijklmnop'',
         \<lparr>auth_provider_id = ''oidc'', remote_user_id = ''new'',
          display_name = Some ''Bob'', emails = [''bob@example.org''],
          extra_login_attributes = None, client_redirect_url = ''https://client.example/'',
          expiry_time_ms = 901000\<rparr>)],
     identity_providers = [],
     world = sim_w0\<lparr>random_strings := [], mapper_calls := [0, 1]\<rparr>\<rparr>)"
proof -
  have h1: "\<not> truthy (get_user_by_external_id sim_hs ''oidc'' ''new'' (world sim_self0))"
    by (simp add: sim_hs_def sim_self0_def sim_w0_def)
  have h2: "sim_no_grandfather (world sim_self0) = (Inr None, sim_w0)"
    by (simp add: sim_no_grandfather_def sim_self0_def)
  have h3: "\<not> truthy None"
    by simp
  have h4: "(1::nat) < MAP_USERNAME_RETRIES"
    by (simp add: MAP_USERNAME_RETRIES_def)
  have h5: "\<forall>j<1. collides sim_hs (sim_answers [Some ''bob'', None]) j
      (attempts_world (sim_answers [Some ''bob'', None]) j sim_w0)"
    by (simp add: collides_def sim_answers_def sim_mapper_world sim_mapper_def attrs_def
        sim_hs_def UserID_to_string_def sim_taken_bob sim_w0_def)
  have h6: "sim_answers [Some ''bob'', None] 1 (attempts_world (sim_answers [Some ''bob'', None]) 1 sim_w0) =
      (Inr (attrs None), sim_w0\<lparr>mapper_calls := [0, 1]\<rparr>)"
    by (simp add: sim_answers_def sim_mapper_world sim_mapper_def sim_w0_def)
  have h7: "localpart (attrs None) = None"
    by (simp add: attrs_def)
  have h8: "random_string sim_hs 16 (sim_w0\<lparr>mapper_calls := [0, 1]\<rparr>) =
      (''abcdefghijklmnop'', sim_w0\<lparr>random_strings := [], mapper_calls := [0, 1]\<rparr>)"
    by (simp add: sim_hs_def sim_w0_def)
  have h9: "list_all (\<lambda>c. (of_char c :: nat) < 128) ''abcdefghijklmnop''"
    by simp
  show ?thesis
    using complete_sso_login_request_redirects_to_picker [where hs = sim_hs and p = "''oidc''"
        and r = "''new''" and self = sim_self0 and grandfather = sim_no_grandfather
        and g = None and wg = sim_w0 and k = 1 and m = "sim_answers [Some ''bob'', None]"
        and attributes = "attrs None" and wm = "sim_w0\<lparr>mapper_calls := [0, 1]\<rparr>"
        and session_id = "''abcdefghijklmnop''"
        and wr = "sim_w0\<lparr>random_strings := [], mapper_calls := [0, 1]\<rparr>"
        and request = sim_request and url = "''https://client.example/''" and extra = None,
        OF h1 h2 h3 h4 h5 h6 h7 h8 h9]
    by (simp add: attrs_def dict_set_def sim_self0_def sim_hs_def sim_w0_def)
qed

section \<open>Starting a login\<close>

text \<open>
  C6. With no provider registered, \<^verbatim>\<open>handle_redirect_request\<close> raises the
  \<^verbatim>\<open>SynapseError\<close> of status 400 "Homeserver not configured for SSO."; with exactly
  one provider it is that provider's \<^verbatim>\<open>handle_redirect_request\<close> on the request and
  the redirect target given; with more than one it returns the URI of the provider
  picker with the redirect target as the query parameter \<^verbatim>\<open>redirectUrl\<close>, and the
  handler is unchanged.
\<close>

theorem handle_redirect_request_dispatch:
  "(identity_providers self = [] \<longrightarrow>
      handle_redirect_request hs request url self =
        (Inl (SynapseError 400 ''Homeserver not configured for SSO.'' UNRECOGNIZED), self)) \<and>
   (\<forall>name ap. identity_providers self = [(name, ap)] \<longrightarrow>
      handle_redirect_request hs request url self =
        in_world (idp_handle_redirect_request ap request (Some url) None) self) \<and>
   (1 < length (identity_providers self) \<longrightarrow>
      handle_redirect_request hs request url self =
        (Inr (''/_synapse/client/pick_idp?'' @ urlencode hs [(''redirectUrl'', url)]), self))"
  by (auto simp: handle_redirect_request_def)

lemma sim_urlencode_redirectUrl:
  "urlencode sim_hs [(''redirectUrl'', ''https://client.example/'')] =
     ''redirectUrl=https%3A%2F%2Fclient.example%2F''"
  by (simp add: sim_hs_def quote_plus_def quote_plus_char_def hex_digit_def)

text \<open>
  In the example deployment: no provider, the provider \<^verbatim>\<open>oidc\<close> alone, and two
  providers.
\<close>

theorem handle_redirect_request_dispatch_witness:
  "handle_redirect_request sim_hs sim_request ''https://client.example/'' sim_self0 =
     (Inl (SynapseError 400 ''Homeserver not configured for SSO.'' UNRECOGNIZED), sim_self0) \<and>
   handle_redirect_request sim_hs sim_request ''https://client.example/''
       (sim_self0\<lparr>identity_providers := [(''oidc'', sim_idp ''oidc'')]\<rparr>) =
     (Inr ''https://oidc.example/auth?next=https://client.example/'',
      sim_self0\<lparr>identity_providers := [(''oidc'', sim_idp ''oidc'')]\<rparr>) \<and>
   handle_redirect_request sim_hs sim_request ''https://client.example/''
       (sim_self0\<lparr>identity_providers := [(''oidc'', sim_idp ''oidc''), (''saml'', sim_idp ''saml'')]\<rparr>) =
     (Inr ''/_synapse/client/pick_idp?redirectUrl=https%3A%2F%2Fclient.example%2F'',
      sim_self0\<lparr>identity_providers := [(''oidc'', sim_idp ''oidc''), (''saml'', sim_idp ''saml'')]\<rparr>)"
  using handle_redirect_request_dispatch
      [of sim_self0 sim_hs sim_request "''https://client.example/''"]
    handle_redirect_request_dispatch
      [of "sim_self0\<lparr>identity_providers := [(''oidc'', sim_idp ''oidc'')]\<rparr>"
        sim_hs sim_request "''https://client.example/''"]
    handle_redirect_request_dispatch
      [of "sim_self0\<lparr>identity_providers := [(''oidc'', sim_idp ''oidc''), (''saml'', sim_idp ''saml'')]\<rparr>"
        sim_hs sim_request "''https://client.example/''"]
  by (simp add: sim_self0_def in_world_def sim_idp_def sim_urlencode_redirectUrl)

section \<open>The username picker sessions\<close>

lemma distinct_unexpired:
  "distinct (map fst d) \<Longrightarrow> distinct (map fst (unexpired now d))"
  by (simp add: unexpired_def distinct_map_filter)

lemma unexpired_unexpired:
  "t' \<le> t \<Longrightarrow> unexpired t (unexpired t' d) = unexpired t d"
  by (induction d) (auto simp: unexpired_def)

lemma dict_get_unexpired:
  assumes "distinct (map fst d)"
  shows "dict_get (unexpired now d) k =
           (case dict_get d k of
              None \<Rightarrow> None
            | Some session \<Rightarrow> if expiry_time_ms session \<le> now then None else Some session)"
  using assms
proof (induction d)
  case Nil
  show ?case by (simp add: dict_get_def unexpired_def)
next
  case (Cons x d)
  obtain k' s where x: "x = (k', s)" by (cases x)
  have notin: "map_of (filter (\<lambda>(session_id, session). \<not> expiry_time_ms session \<le> now) d) k' = None"
    using Cons.prems x by (auto simp: map_of_eq_None_iff)
  show ?case
    using Cons x notin by (auto simp: dict_get_def unexpired_def split: option.splits)
qed

text \<open>Deleting keys that are in the dict, each once, raises no \<^verbatim>\<open>KeyError\<close>.\<close>

lemma del_sessions_present:
  assumes "distinct ks" and "set ks \<subseteq> fst ` set (username_mapping_sessions self)"
  shows "del_sessions ks self =
           (Inr (), self\<lparr>username_mapping_sessions :=
                           filter (\<lambda>(k, _). k \<notin> set ks) (username_mapping_sessions self)\<rparr>)"
  using assms
proof (induction ks arbitrary: self)
  case Nil
  show ?case by simp
next
  case (Cons k ks)
  let ?d = "username_mapping_sessions self"
  have "k \<in> fst ` set ?d"
    using Cons.prems by simp
  then obtain v where v: "map_of ?d k = Some v"
    by (cases "map_of ?d k") (auto simp: map_of_eq_None_iff)
  have del: "dict_del k ?d = Inr (AList.delete k ?d)"
    by (simp add: dict_del_def v)
  have sub: "set ks \<subseteq> fst ` set (AList.delete k ?d)"
  proof
    fix k' assume k': "k' \<in> set ks"
    then have "k' \<noteq> k" using Cons.prems(1) by auto
    moreover have "k' \<in> fst ` set ?d" using k' Cons.prems(2) by auto
    ultimately show "k' \<in> fst ` set (AList.delete k ?d)"
      by (force simp: AList.delete_eq)
  qed
  have "del_sessions ks (self\<lparr>username_mapping_sessions := AList.delete k ?d\<rparr>) =
        (Inr (), self\<lparr>username_mapping_sessions :=
                        filter (\<lambda>(k', _). k' \<notin> set ks) (AList.delete k ?d)\<rparr>)"
    using Cons.IH [of "self\<lparr>username_mapping_sessions := AList.delete k ?d\<rparr>"] Cons.prems(1) sub
    by simp
  moreover have "filter (\<lambda>(k', _). k' \<notin> set ks) (AList.delete k ?d) =
                 filter (\<lambda>(k', _). k' \<notin> set (k # ks)) ?d"
    by (auto simp: AList.delete_eq intro: filter_cong)
  ultimately show ?case
    by (simp add: del)
qed

text \<open>The sweep removes the sessions whose expiry time is at most the clock reading.\<close>

lemma expire_old_sessions_unexpired:
  assumes "distinct (map fst (username_mapping_sessions self))"
  shows "expire_old_sessions hs self =
           (Inr (), self\<lparr>username_mapping_sessions :=
                           unexpired (time_msec hs (world self)) (username_mapping_sessions self)\<rparr>)"
proof -
  let ?d = "username_mapping_sessions self"
  let ?now = "time_msec hs (world self)"
  let ?ks = "map fst (filter (\<lambda>(session_id, session). expiry_time_ms session \<le> ?now) ?d)"
  have 1: "distinct ?ks"
    using assms by (rule distinct_map_filter)
  have 2: "set ?ks \<subseteq> fst ` set ?d"
    by auto
  have 3: "filter (\<lambda>(k, _). k \<notin> set ?ks) ?d = unexpired ?now ?d"
    unfolding unexpired_def
  proof (rule filter_cong [OF refl])
    fix x assume x: "x \<in> set ?d"
    obtain k s where ks: "x = (k, s)" by (cases x)
    have "k \<in> set ?ks \<longleftrightarrow> expiry_time_ms s \<le> ?now"
    proof
      assume "k \<in> set ?ks"
      then obtain s' where s': "(k, s') \<in> set ?d" "expiry_time_ms s' \<le> ?now"
        by auto
      then have "s' = s"
        using assms x ks by (auto dest: eq_key_imp_eq_value)
      then show "expiry_time_ms s \<le> ?now" using s' by simp
    next
      assume "expiry_time_ms s \<le> ?now"
      then show "k \<in> set ?ks" using x ks by force
    qed
    then show "(case x of (k, _) \<Rightarrow> k \<notin> set ?ks) =
               (case x of (session_id, session) \<Rightarrow> \<not> expiry_time_ms session \<le> ?now)"
      by (simp add: ks)
  qed
  have "expire_old_sessions hs self = del_sessions ?ks self"
    unfolding expire_old_sessions_def Let_def ..
  also have "\<dots> = (Inr (), self\<lparr>username_mapping_sessions := filter (\<lambda>(k, _). k \<notin> set ?ks) ?d\<rparr>)"
    by (rule del_sessions_present [OF 1 2])
  finally show ?thesis
    by (simp only: 3)
qed

text \<open>Both picker methods sweep, then look the session up among those left.\<close>

lemma check_username_availability_swept:
  assumes "distinct (map fst (username_mapping_sessions self))"
  shows "check_username_availability hs lp sid self =
           (case dict_get (unexpired (time_msec hs (world self)) (username_mapping_sessions self)) sid of
              None \<Rightarrow> Inl (SynapseError 400 ''unknown session'' UNKNOWN)
            | Some session \<Rightarrow>
                if contains_invalid_mxid_characters hs lp then
                  Inl (SynapseError 400 (''localpart is invalid: '' @ lp) UNKNOWN)
                else
                  Inr (get_users_by_id_case_insensitive hs (UserID_to_string lp (hostname hs))
                         (world self) = []),
            self\<lparr>username_mapping_sessions :=
                   unexpired (time_msec hs (world self)) (username_mapping_sessions self)\<rparr>)"
  by (simp add: check_username_availability_def and_then_def
      expire_old_sessions_unexpired [OF assms] split: option.splits)

lemma handle_submit_username_request_swept:
  assumes "distinct (map fst (username_mapping_sessions self))"
  shows "handle_submit_username_request hs request lp sid self =
           (case dict_get (unexpired (time_msec hs (world self)) (username_mapping_sessions self)) sid of
              None \<Rightarrow>
                (Inl (SynapseError 400 ''unknown session'' UNKNOWN), request,
                 self\<lparr>username_mapping_sessions :=
                        unexpired (time_msec hs (world self)) (username_mapping_sessions self)\<rparr>)
            | Some session \<Rightarrow>
                submit_username_with_session hs request lp sid session
                  (self\<lparr>username_mapping_sessions :=
                          unexpired (time_msec hs (world self)) (username_mapping_sessions self)\<rparr>))"
  by (simp add: handle_submit_username_request_def
      expire_old_sessions_unexpired [OF assms] split: option.splits)

text \<open>The body of the submit method, by what the registration does.\<close>

lemma submit_username_with_session_invalid:
  assumes "invalid_localpart hs (Some lp)"
  shows "submit_username_with_session hs request lp sid session self =
           (Inl (MappingException (''localpart is invalid: '' @ lp) None), request, self)"
  using register_mapped_user_invalid [where hs = hs
      and attributes = "\<lparr>localpart = Some lp, UserAttributes.display_name = display_name session,
                          UserAttributes.emails = emails session\<rparr>"]
    assms
  by (simp add: submit_username_with_session_def)

lemma submit_username_with_session_refused:
  assumes "\<not> invalid_localpart hs (Some lp)"
    and "register_user hs lp (display_name session) (emails session)
           [(get_user_agent request '''', getClientIP request)] (world self) = (Inl e, wfail)"
  shows "submit_username_with_session hs request lp sid session self =
           (Inl e, request, self\<lparr>world := wfail\<rparr>)"
  using register_mapped_user_refused [where hs = hs and lp = lp and self = self and e = e
      and attributes = "\<lparr>localpart = Some lp, UserAttributes.display_name = display_name session,
                          UserAttributes.emails = emails session\<rparr>"]
    assms
  by (simp add: submit_username_with_session_def)

lemma submit_username_with_session_registered:
  assumes "\<not> invalid_localpart hs (Some lp)"
    and "register_user hs lp (display_name session) (emails session)
           [(get_user_agent request '''', getClientIP request)] (world self) = (Inr user_id, wreg)"
    and "dict_get (username_mapping_sessions self) sid = Some session'"
    and "complete_sso_login hs user_id
           (addCookie USERNAME_MAPPING_SESSION_COOKIE_NAME ''''
              (Some ''Thu, 01 Jan 1970 00:00:00 GMT'') (Some ''/'') request)
           (client_redirect_url session) (extra_login_attributes session)
           (record_user_external_id hs (auth_provider_id session) (remote_user_id session)
              user_id wreg) = (res, wfin)"
  shows "submit_username_with_session hs request lp sid session self =
           (res,
            addCookie USERNAME_MAPPING_SESSION_COOKIE_NAME ''''
              (Some ''Thu, 01 Jan 1970 00:00:00 GMT'') (Some ''/'') request,
            self\<lparr>username_mapping_sessions := AList.delete sid (username_mapping_sessions self),
                 world := wfin\<rparr>)"
  using register_mapped_user_created [where hs = hs and lp = lp and self = self
      and user_id = user_id
      and attributes = "\<lparr>localpart = Some lp, UserAttributes.display_name = display_name session,
                          UserAttributes.emails = emails session\<rparr>"]
    assms
  by (simp add: submit_username_with_session_def dict_del_def dict_get_def in_world_def)

text \<open>
  C9. Let the session be in the table and not expired. If the localpart is invalid, or
  \<^verbatim>\<open>register_user\<close> raises \<open>e\<close> (for instance the \<^verbatim>\<open>SynapseError\<close> with the code
  \<^verbatim>\<open>USER_IN_USE\<close> of a user id taken in the meantime), the submit raises the
  \<^verbatim>\<open>MappingException\<close> of the check, or \<open>e\<close> itself; the request has no cookie added and
  the session is still in the table, which only the sweep has changed. If the registration
  succeeds, the session is deleted and the cookie is cleared on the request that is
  handed to \<^verbatim>\<open>complete_sso_login\<close>.
\<close>

theorem handle_submit_username_request_keeps_session_on_failure:
  assumes "distinct (map fst (username_mapping_sessions self))"
    and "dict_get (username_mapping_sessions self) sid = Some session"
    and "time_msec hs (world self) < expiry_time_ms session"
  shows
    "dict_get (unexpired (time_msec hs (world self)) (username_mapping_sessions self)) sid =
       Some session \<and>
     (invalid_localpart hs (Some lp) \<longrightarrow>
        handle_submit_username_request hs request lp sid self =
          (Inl (MappingException (''localpart is invalid: '' @ lp) None), request,
           self\<lparr>username_mapping_sessions :=
                  unexpired (time_msec hs (world self)) (username_mapping_sessions self)\<rparr>)) \<and>
     (\<forall>e wfail.
        \<not> invalid_localpart hs (Some lp) \<and>
        register_user hs lp (display_name session) (emails session)
          [(get_user_agent request '''', getClientIP request)] (world self) = (Inl e, wfail) \<longrightarrow>
        handle_submit_username_request hs request lp sid self =
          (Inl e, request,
           self\<lparr>username_mapping_sessions :=
                  unexpired (time_msec hs (world self)) (username_mapping_sessions self),
                world := wfail\<rparr>)) \<and>
     (\<forall>user_id wreg res wfin.
        \<not> invalid_localpart hs (Some lp) \<and>
        register_user hs lp (display_name session) (emails session)
          [(get_user_agent request '''', getClientIP request)] (world self) =
          (Inr user_id, wreg) \<and>
        complete_sso_login hs user_id
          (addCookie USERNAME_MAPPING_SESSION_COOKIE_NAME ''''
             (Some ''Thu, 01 Jan 1970 00:00:00 GMT'') (Some ''/'') request)
          (client_redirect_url session) (extra_login_attributes session)
          (record_user_external_id hs (auth_provider_id session) (remote_user_id session)
             user_id wreg) = (res, wfin) \<longrightarrow>
        handle_submit_username_request hs request lp sid self =
          (res,
           addCookie USERNAME_MAPPING_SESSION_COOKIE_NAME ''''
             (Some ''Thu, 01 Jan 1970 00:00:00 GMT'') (Some ''/'') request,
           self\<lparr>username_mapping_sessions :=
                  AList.delete sid
                    (unexpired (time_msec hs (world self)) (username_mapping_sessions self)),
                world := wfin\<rparr>) \<and>
        dict_get
          (AList.delete sid
             (unexpired (time_msec hs (world self)) (username_mapping_sessions self))) sid = None)"
proof -
  let ?d = "unexpired (time_msec hs (world self)) (username_mapping_sessions self)"
  let ?swept = "self\<lparr>username_mapping_sessions := ?d\<rparr>"
  have found: "dict_get ?d sid = Some session"
    using assms by (simp add: dict_get_unexpired)
  have submit: "handle_submit_username_request hs request lp sid self =
      submit_username_with_session hs request lp sid session ?swept"
    using found by (simp add: handle_submit_username_request_swept [OF assms(1)])
  have gone: "dict_get (AList.delete sid ?d) sid = None"
    by (simp add: dict_get_def delete_conv')
  show ?thesis
  proof (intro conjI impI allI)
    show "dict_get ?d sid = Some session" by (rule found)
  next
    assume "invalid_localpart hs (Some lp)"
    then show "handle_submit_username_request hs request lp sid self =
      (Inl (MappingException (''localpart is invalid: '' @ lp) None), request, ?swept)"
      by (simp add: submit submit_username_with_session_invalid)
  next
    fix e wfail
    assume "\<not> invalid_localpart hs (Some lp) \<and>
        register_user hs lp (display_name session) (emails session)
          [(get_user_agent request '''', getClientIP request)] (world self) = (Inl e, wfail)"
    then show "handle_submit_username_request hs request lp sid self =
      (Inl e, request, self\<lparr>username_mapping_sessions := ?d, world := wfail\<rparr>)"
      using submit_username_with_session_refused [where hs = hs and lp = lp and self = ?swept
          and session = session and request = request and e = e and wfail = wfail and sid = sid]
      by (simp add: submit)
  next
    fix user_id wreg res wfin
    assume a: "\<not> invalid_localpart hs (Some lp) \<and>
        register_user hs lp (display_name session) (emails session)
          [(get_user_agent request '''', getClientIP request)] (world self) =
          (Inr user_id, wreg) \<and>
        complete_sso_login hs user_id
          (addCookie USERNAME_MAPPING_SESSION_COOKIE_NAME ''''
             (Some ''Thu, 01 Jan 1970 00:00:00 GMT'') (Some ''/'') request)
          (client_redirect_url session) (extra_login_attributes session)
          (record_user_external_id hs (auth_provider_id session) (remote_user_id session)
             user_id wreg) = (res, wfin)"
    show "handle_submit_username_request hs request lp sid self =
          (res,
           addCookie USERNAME_MAPPING_SESSION_COOKIE_NAME ''''
             (Some ''Thu, 01 Jan 1970 00:00:00 GMT'') (Some ''/'') request,
           self\<lparr>username_mapping_sessions := AList.delete sid ?d, world := wfin\<rparr>)"
      using submit_username_with_session_registered [where hs = hs and lp = lp
          and self = ?swept and session = session and session' = session and request = request
          and user_id = user_id and wreg = wreg and res = res and wfin = wfin and sid = sid]
        a found
      by (simp add: submit)
  next
    fix user_id wreg res wfin
    show "dict_get (AList.delete sid ?d) sid = None" by (rule gone)
  qed
qed

lemma sim_self1_unexpired:
  "unexpired (time_msec sim_hs (world sim_self1)) (username_mapping_sessions sim_self1) =
     username_mapping_sessions sim_self1"
  by (simp add: unexpired_def sim_hs_def sim_self1_def sim_w0_def sim_session_def)

text \<open>
  In the example deployment, with the session of \<open>sim_self1\<close>: an ill-formed localpart and
  the taken \<^verbatim>\<open>bob\<close> leave the request and the handler as they were, the second with
  the \<^verbatim>\<open>USER_IN_USE\<close> error of the registration; \<^verbatim>\<open>bob2\<close> is registered, the session
  is deleted and the cookie is cleared.
\<close>

theorem handle_submit_username_request_keeps_session_on_failure_witness:
  "handle_submit_username_request sim_hs sim_request ''Bad Name'' ''abcdefghijklmnop'' sim_self1 =
     (Inl (MappingException ''localpart is invalid: Bad Name'' None), sim_request, sim_self1) \<and>
   handle_submit_username_request sim_hs sim_request ''bob'' ''abcdefghijklmnop'' sim_self1 =
     (Inl (SynapseError 400 ''User ID already taken.'' USER_IN_USE), sim_request, sim_self1) \<and>
   dict_get (username_mapping_sessions sim_self1) ''abcdefghijklmnop'' = Some sim_session \<and>
   handle_submit_username_request sim_hs sim_request ''bob2'' ''abcdefghijklmnop'' sim_self1 =
     (Inr (), sim_request\<lparr>cookies := [sim_cleared_cookie]\<rparr>,
      \<lparr>username_mapping_sessions = [], identity_providers = [],
       world = sim_w0
         \<lparr>random_strings := [],
          user_external_ids := [((''oidc'', ''abc''), ''@alice:example.org''),
                                 ((''oidc'', ''new''), ''@bob2:example.org'')],
          users := [''@alice:example.org'', ''@Bob:example.org'', ''@bob2:example.org''],
          logins := [''@bob2:example.org'']\<rparr>\<rparr>)"
proof -
  have h1: "distinct (map fst (username_mapping_sessions sim_self1))"
    by (simp add: sim_self1_def)
  have h2: "dict_get (username_mapping_sessions sim_self1) ''abcdefghijklmnop'' = Some sim_session"
    by (simp add: sim_self1_def dict_get_def)
  have h3: "time_msec sim_hs (world sim_self1) < expiry_time_ms sim_session"
    by (simp add: sim_hs_def sim_self1_def sim_w0_def sim_session_def)
  note inst = handle_submit_username_request_keeps_session_on_failure [where hs = sim_hs
      and self = sim_self1 and sid = "''abcdefghijklmnop''" and session = sim_session
      and request = sim_request, OF h1 h2 h3, unfolded sim_self1_unexpired]
  have users: "users (world sim_self1) = [''@alice:example.org'', ''@Bob:example.org'']"
    by (simp add: sim_self1_def sim_w0_def)
  have bad: "invalid_localpart sim_hs (Some ''Bad Name'')"
    by (simp add: invalid_localpart_def sim_invalid_Bad)
  have bob: "\<not> invalid_localpart sim_hs (Some ''bob'')"
    by (simp add: invalid_localpart_def sim_hs_def)
  have bob2: "\<not> invalid_localpart sim_hs (Some ''bob2'')"
    by (simp add: invalid_localpart_def sim_valid_bob2)
  have reg_bob: "register_user sim_hs ''bob'' (display_name sim_session) (emails sim_session)
      [(get_user_agent sim_request '''', getClientIP sim_request)] (world sim_self1) =
      (Inl (SynapseError 400 ''User ID already taken.'' USER_IN_USE), world sim_self1)"
    by (simp add: sim_hs_def UserID_to_string_def sim_taken_bob [OF users])
  have reg_bob2: "register_user sim_hs ''bob2'' (display_name sim_session) (emails sim_session)
      [(get_user_agent sim_request '''', getClientIP sim_request)] (world sim_self1) =
      (Inr ''@bob2:example.org'',
       world sim_self1\<lparr>users := [''@alice:example.org'', ''@Bob:example.org'', ''@bob2:example.org'']\<rparr>)"
    by (simp add: sim_hs_def UserID_to_string_def sim_taken_bob2 [OF users] users Let_def)
  have 1: "handle_submit_username_request sim_hs sim_request ''Bad Name'' ''abcdefghijklmnop'' sim_self1 =
     (Inl (MappingException ''localpart is invalid: Bad Name'' None), sim_request, sim_self1)"
    using inst [of "''Bad Name''"] bad by simp
  have 2: "handle_submit_username_request sim_hs sim_request ''bob'' ''abcdefghijklmnop'' sim_self1 =
     (Inl (SynapseError 400 ''User ID already taken.'' USER_IN_USE), sim_request, sim_self1)"
    using inst [of "''bob''"] bob reg_bob by simp
  have 3: "handle_submit_username_request sim_hs sim_request ''bob2'' ''abcdefghijklmnop'' sim_self1 =
     (Inr (), sim_request\<lparr>cookies := [sim_cleared_cookie]\<rparr>,
      \<lparr>username_mapping_sessions = [], identity_providers = [],
       world = sim_w0
         \<lparr>random_strings := [],
          user_external_ids := [((''oidc'', ''abc''), ''@alice:example.org''),
                                 ((''oidc'', ''new''), ''@bob2:example.org'')],
          users := [''@alice:example.org'', ''@Bob:example.org'', ''@bob2:example.org''],
          logins := [''@bob2:example.org'']\<rparr>\<rparr>)"
    using inst [of "''bob2''"] bob2 reg_bob2
    by (simp add: sim_hs_def sim_self1_def sim_w0_def sim_session_def sim_request_def
        sim_cleared_cookie_def addCookie_def USERNAME_MAPPING_SESSION_COOKIE_NAME_def)
  from 1 2 h2 3 show ?thesis by blast
qed

text \<open>
  Checks made no later than \<open>t\<close> change the session table only by sessions that a sweep
  at \<open>t\<close> removes as well.
\<close>

lemma after_checks_effect:
  assumes "distinct (map fst (username_mapping_sessions self))"
    and "\<forall>(lp, sid, w) \<in> set checks. time_msec hs w \<le> t"
  shows "\<exists>d w. after_checks hs checks self = self\<lparr>username_mapping_sessions := d, world := w\<rparr> \<and>
           distinct (map fst d) \<and>
           unexpired t d = unexpired t (username_mapping_sessions self)"
  using assms
proof (induction checks arbitrary: self)
  case Nil
  have "self = self\<lparr>username_mapping_sessions := username_mapping_sessions self, world := world self\<rparr>"
    by simp
  then show ?case
    using Nil.prems(1) by (metis after_checks.simps(1))
next
  case (Cons c checks)
  obtain lp sid wc where c: "c = (lp, sid, wc)" by (cases c)
  let ?self' = "self\<lparr>username_mapping_sessions :=
                       unexpired (time_msec hs wc) (username_mapping_sessions self),
                     world := wc\<rparr>"
  have le: "time_msec hs wc \<le> t"
    using Cons.prems(2) c by simp
  have step: "snd (check_username_availability hs lp sid (self\<lparr>world := wc\<rparr>)) = ?self'"
    using Cons.prems(1) by (simp add: check_username_availability_swept)
  have "\<exists>d w. after_checks hs checks ?self' = ?self'\<lparr>username_mapping_sessions := d, world := w\<rparr> \<and>
          distinct (map fst d) \<and>
          unexpired t d = unexpired t (username_mapping_sessions ?self')"
    using Cons.prems by (intro Cons.IH) (simp_all add: distinct_unexpired)
  then obtain d w where d:
    "after_checks hs checks ?self' = self\<lparr>username_mapping_sessions := d, world := w\<rparr>"
    "distinct (map fst d)"
    "unexpired t d = unexpired t (username_mapping_sessions self)"
    using le by (auto simp: unexpired_unexpired)
  have "after_checks hs (c # checks) self = self\<lparr>username_mapping_sessions := d, world := w\<rparr>"
    by (simp add: c step d(1))
  then show ?case
    using d(2,3) by blast
qed

text \<open>
  C8. With an unexpired session and a valid localpart, the check returns whether no
  account owns the derived user id under the case-insensitive lookup; the world is as it
  was (no name is reserved), and the session table is the one the sweep leaves: the
  sessions kept are unchanged. A submit made after any sequence of checks, none of them
  later than the submit by the clock, gives the result and leaves the request and the
  handler as the same submit without the checks.
\<close>

theorem check_username_availability_no_side_effect:
  fixes hs :: "'w HomeServer"
  assumes "distinct (map fst (username_mapping_sessions self))"
  shows
    "(\<forall>session.
        dict_get (username_mapping_sessions self) sid = Some session \<and>
        time_msec hs (world self) < expiry_time_ms session \<and>
        \<not> contains_invalid_mxid_characters hs lp \<longrightarrow>
        check_username_availability hs lp sid self =
          (Inr (get_users_by_id_case_insensitive hs (UserID_to_string lp (hostname hs))
                  (world self) = []),
           self\<lparr>username_mapping_sessions :=
                  unexpired (time_msec hs (world self)) (username_mapping_sessions self)\<rparr>)) \<and>
     (\<forall>(checks :: (string \<times> string \<times> 'w) list) w.
        (\<forall>(lp', sid', w') \<in> set checks. time_msec hs w' \<le> time_msec hs w) \<longrightarrow>
        handle_submit_username_request hs request lp sid ((after_checks hs checks self)\<lparr>world := w\<rparr>) =
        handle_submit_username_request hs request lp sid (self\<lparr>world := w\<rparr>))"
proof (intro conjI allI impI)
  fix session
  assume "dict_get (username_mapping_sessions self) sid = Some session \<and>
        time_msec hs (world self) < expiry_time_ms session \<and>
        \<not> contains_invalid_mxid_characters hs lp"
  then show "check_username_availability hs lp sid self =
          (Inr (get_users_by_id_case_insensitive hs (UserID_to_string lp (hostname hs))
                  (world self) = []),
           self\<lparr>username_mapping_sessions :=
                  unexpired (time_msec hs (world self)) (username_mapping_sessions self)\<rparr>)"
    using assms by (simp add: check_username_availability_swept dict_get_unexpired)
next
  fix checks :: "(string \<times> string \<times> 'w) list" and w
  assume "\<forall>(lp', sid', w') \<in> set checks. time_msec hs w' \<le> time_msec hs w"
  then obtain d w' where d:
    "after_checks hs checks self = self\<lparr>username_mapping_sessions := d, world := w'\<rparr>"
    "distinct (map fst d)"
    "unexpired (time_msec hs w) d = unexpired (time_msec hs w) (username_mapping_sessions self)"
    using after_checks_effect [OF assms, of checks hs "time_msec hs w"] by blast
  have "handle_submit_username_request hs request lp sid
          (self\<lparr>username_mapping_sessions := d, world := w\<rparr>) =
        handle_submit_username_request hs request lp sid (self\<lparr>world := w\<rparr>)"
    using d(2,3) assms by (simp add: handle_submit_username_request_swept split: option.splits)
  then show "handle_submit_username_request hs request lp sid
          ((after_checks hs checks self)\<lparr>world := w\<rparr>) =
        handle_submit_username_request hs request lp sid (self\<lparr>world := w\<rparr>)"
    by (simp add: d(1))
qed

text \<open>
  In the example deployment, with the session of \<open>sim_self1\<close>: \<^verbatim>\<open>bob2\<close> is available and
  \<^verbatim>\<open>bob\<close> is not, and the handler is as before the check; after two checks at the clock
  readings 2000 and 3000, the submit of \<^verbatim>\<open>bob2\<close> at 5000 registers the user as it
  would have without them.
\<close>

theorem check_username_availability_no_side_effect_witness:
  "check_username_availability sim_hs ''bob2'' ''abcdefghijklmnop'' sim_self1 =
     (Inr True, sim_self1) \<and>
   check_username_availability sim_hs ''bob'' ''abcdefghijklmnop'' sim_self1 =
     (Inr False, sim_self1) \<and>
   handle_submit_username_request sim_hs sim_request ''bob2'' ''abcdefghijklmnop''
     ((after_checks sim_hs
         [(''bob2'', ''abcdefghijklmnop'', sim_w0\<lparr>now_ms := 2000\<rparr>),
          (''bob2'', ''abcdefghijklmnop'', sim_w0\<lparr>now_ms := 3000\<rparr>)]
         sim_self1)\<lparr>world := sim_w0\<lparr>now_ms := 5000\<rparr>\<rparr>) =
     (Inr (), sim_request\<lparr>cookies := [sim_cleared_cookie]\<rparr>,
      \<lparr>username_mapping_sessions = [], identity_providers = [],
       world = sim_w0
         \<lparr>now_ms := 5000,
          user_external_ids := [((''oidc'', ''abc''), ''@alice:example.org''),
                                 ((''oidc'', ''new''), ''@bob2:example.org'')],
          users := [''@alice:example.org'', ''@Bob:example.org'', ''@bob2:example.org''],
          logins := [''@bob2:example.org'']\<rparr>\<rparr>)"
proof -
  have h: "distinct (map fst (username_mapping_sessions sim_self1))"
    by (simp add: sim_self1_def)
  note inst = check_username_availability_no_side_effect [where hs = sim_hs and self = sim_self1
      and sid = "''abcdefghijklmnop''" and request = sim_request, OF h,
      unfolded sim_self1_unexpired]
  have found: "dict_get (username_mapping_sessions sim_self1) ''abcdefghijklmnop'' = Some sim_session"
    by (simp add: sim_self1_def dict_get_def)
  have fresh: "time_msec sim_hs (world sim_self1) < expiry_time_ms sim_session"
    by (simp add: sim_hs_def sim_self1_def sim_w0_def sim_session_def)
  have users: "users (world sim_self1) = [''@alice:example.org'', ''@Bob:example.org'']"
    by (simp add: sim_self1_def sim_w0_def)
  have 1: "check_username_availability sim_hs ''bob2'' ''abcdefghijklmnop'' sim_self1 =
     (Inr True, sim_self1)"
    using inst [of "''bob2''", THEN conjunct1, rule_format, of sim_session] found fresh
    by (simp add: sim_valid_bob2) (simp add: sim_hs_def UserID_to_string_def sim_taken_bob2 [OF users])
  have 2: "check_username_availability sim_hs ''bob'' ''abcdefghijklmnop'' sim_self1 =
     (Inr False, sim_self1)"
    using inst [of "''bob''", THEN conjunct1, rule_format, of sim_session] found fresh
    by (simp add: sim_hs_def UserID_to_string_def sim_taken_bob [OF users])
  have users5: "users (sim_w0\<lparr>now_ms := 5000\<rparr>) = [''@alice:example.org'', ''@Bob:example.org'']"
    by (simp add: sim_w0_def)
  have direct: "handle_submit_username_request sim_hs sim_request ''bob2'' ''abcdefghijklmnop''
     (sim_self1\<lparr>world := sim_w0\<lparr>now_ms := 5000\<rparr>\<rparr>) =
     (Inr (), sim_request\<lparr>cookies := [sim_cleared_cookie]\<rparr>,
      \<lparr>username_mapping_sessions = [], identity_providers = [],
       world = sim_w0
         \<lparr>now_ms := 5000,
          user_external_ids := [((''oidc'', ''abc''), ''@alice:example.org''),
                                 ((''oidc'', ''new''), ''@bob2:example.org'')],
          users := [''@alice:example.org'', ''@Bob:example.org'', ''@bob2:example.org''],
          logins := [''@bob2:example.org'']\<rparr>\<rparr>)"
    by (simp add: handle_submit_username_request_def expire_old_sessions_def
        submit_username_with_session_def register_mapped_user_def and_then_def in_world_def
        dict_get_def dict_del_def addCookie_def get_user_agent_def getClientIP_def
        USERNAME_MAPPING_SESSION_COOKIE_NAME_def sim_cleared_cookie_def sim_request_def
        sim_self1_def sim_session_def sim_hs_def UserID_to_string_def
        sim_taken_bob2 [OF users5] Let_def)
      (simp add: sim_w0_def)
  have times: "\<forall>(lp', sid', w') \<in> set
         [(''bob2'', ''abcdefghijklmnop'', sim_w0\<lparr>now_ms := 2000\<rparr>),
          (''bob2'', ''abcdefghijklmnop'', sim_w0\<lparr>now_ms := 3000\<rparr>)].
       time_msec sim_hs w' \<le> time_msec sim_hs (sim_w0\<lparr>now_ms := 5000\<rparr>)"
    by (simp add: sim_hs_def)
  have 3: "handle_submit_username_request sim_hs sim_request ''bob2'' ''abcdefghijklmnop''
     ((after_checks sim_hs
         [(''bob2'', ''abcdefghijklmnop'', sim_w0\<lparr>now_ms := 2000\<rparr>),
          (''bob2'', ''abcdefghijklmnop'', sim_w0\<lparr>now_ms := 3000\<rparr>)]
         sim_self1)\<lparr>world := sim_w0\<lparr>now_ms := 5000\<rparr>\<rparr>) =
     handle_submit_username_request sim_hs sim_request ''bob2'' ''abcdefghijklmnop''
     (sim_self1\<lparr>world := sim_w0\<lparr>now_ms := 5000\<rparr>\<rparr>)"
    by (rule inst [of "''bob2''", THEN conjunct2, THEN spec, THEN spec, THEN mp, OF times])
  from 1 2 3 direct show ?thesis by simp
qed

text \<open>
  C7. Let \<^verbatim>\<open>_redirect_to_username_picker\<close> create a session under the id \<open>sid\<close>, and
  let \<open>T\<close> be the clock reading it took. The session stored under \<open>sid\<close> expires at
  \<open>T + 15 * 60 * 1000\<close>. On any later handler whose session table still has under \<open>sid\<close>
  what the creation stored: while the clock reads less than \<open>T + 15 * 60 * 1000\<close>, the
  check and the submit with \<open>sid\<close> find the session and go on with it; once the clock
  reads \<open>T + 15 * 60 * 1000\<close> or more, both raise "unknown session". The sweep that both
  run first removes the sessions whose expiry time is at most the clock reading, and no
  other.
\<close>

theorem picker_session_expiry_boundary:
  fixes hs :: "'w HomeServer"
  assumes "random_string hs 16 (world self) = (sid, wr)"
    and "redirect_to_username_picker hs p r attributes url extra self = (e, created)"
    and "distinct (map fst (username_mapping_sessions later))"
    and "dict_get (username_mapping_sessions later) sid =
         dict_get (username_mapping_sessions created) sid"
  shows
    "\<exists>session.
       dict_get (username_mapping_sessions created) sid = Some session \<and>
       expiry_time_ms session = time_msec hs wr + 15 * 60 * 1000 \<and>
       (time_msec hs (world later) < time_msec hs wr + 15 * 60 * 1000 \<longrightarrow>
          check_username_availability hs lp sid later =
            (if contains_invalid_mxid_characters hs lp then
               Inl (SynapseError 400 (''localpart is invalid: '' @ lp) UNKNOWN)
             else
               Inr (get_users_by_id_case_insensitive hs (UserID_to_string lp (hostname hs))
                      (world later) = []),
             later\<lparr>username_mapping_sessions :=
                     unexpired (time_msec hs (world later)) (username_mapping_sessions later)\<rparr>) \<and>
          handle_submit_username_request hs request lp sid later =
            submit_username_with_session hs request lp sid session
              (later\<lparr>username_mapping_sessions :=
                      unexpired (time_msec hs (world later)) (username_mapping_sessions later)\<rparr>)) \<and>
       (time_msec hs wr + 15 * 60 * 1000 \<le> time_msec hs (world later) \<longrightarrow>
          check_username_availability hs lp sid later =
            (Inl (SynapseError 400 ''unknown session'' UNKNOWN),
             later\<lparr>username_mapping_sessions :=
                     unexpired (time_msec hs (world later)) (username_mapping_sessions later)\<rparr>) \<and>
          handle_submit_username_request hs request lp sid later =
            (Inl (SynapseError 400 ''unknown session'' UNKNOWN), request,
             later\<lparr>username_mapping_sessions :=
                     unexpired (time_msec hs (world later)) (username_mapping_sessions later)\<rparr>)) \<and>
       expire_old_sessions hs later =
         (Inr (),
          later\<lparr>username_mapping_sessions :=
                  filter (\<lambda>(session_id, session).
                            \<not> expiry_time_ms session \<le> time_msec hs (world later))
                    (username_mapping_sessions later)\<rparr>)"
proof -
  let ?session = "\<lparr>auth_provider_id = p, remote_user_id = r,
                    display_name = UserAttributes.display_name attributes,
                    emails = UserAttributes.emails attributes,
                    extra_login_attributes = extra, client_redirect_url = url,
                    expiry_time_ms = time_msec hs wr + 15 * 60 * 1000\<rparr>"
  let ?now = "time_msec hs (world later)"
  have created: "username_mapping_sessions created =
      dict_set sid ?session (username_mapping_sessions self)"
    using assms(1,2)
    by (auto simp: redirect_to_username_picker_def MAPPING_SESSION_VALIDITY_PERIOD_MS_def Let_def
        split: sum.splits)
  have "dict_get (username_mapping_sessions created) sid = Some ?session"
    by (simp add: created dict_get_def dict_set_def update_conv')
  then have stored: "dict_get (username_mapping_sessions later) sid = Some ?session"
    by (simp add: assms(4))
  have dist: "distinct (map fst (username_mapping_sessions later))"
    by (rule assms(3))
  have sweep: "expire_old_sessions hs later =
      (Inr (), later\<lparr>username_mapping_sessions :=
                       unexpired ?now (username_mapping_sessions later)\<rparr>)"
    by (rule expire_old_sessions_unexpired [OF dist])
  have early: "dict_get (unexpired ?now (username_mapping_sessions later)) sid = Some ?session"
    if "?now < time_msec hs wr + 15 * 60 * 1000"
    using that by (simp add: dict_get_unexpired [OF dist] stored)
  have late: "dict_get (unexpired ?now (username_mapping_sessions later)) sid = None"
    if "time_msec hs wr + 15 * 60 * 1000 \<le> ?now"
    using that by (simp add: dict_get_unexpired [OF dist] stored)
  show ?thesis
  proof (intro exI [of _ ?session] conjI impI)
    show "dict_get (username_mapping_sessions created) sid = Some ?session"
      using stored by (simp add: assms(4))
    show "expiry_time_ms ?session = time_msec hs wr + 15 * 60 * 1000"
      by simp
    show "expire_old_sessions hs later =
      (Inr (), later\<lparr>username_mapping_sessions :=
         filter (\<lambda>(session_id, session). \<not> expiry_time_ms session \<le> ?now)
           (username_mapping_sessions later)\<rparr>)"
      using sweep by (simp add: unexpired_def)
  next
    assume a: "?now < time_msec hs wr + 15 * 60 * 1000"
    show "check_username_availability hs lp sid later =
            (if contains_invalid_mxid_characters hs lp then
               Inl (SynapseError 400 (''localpart is invalid: '' @ lp) UNKNOWN)
             else
               Inr (get_users_by_id_case_insensitive hs (UserID_to_string lp (hostname hs))
                      (world later) = []),
             later\<lparr>username_mapping_sessions := unexpired ?now (username_mapping_sessions later)\<rparr>)"
      by (simp add: check_username_availability_swept [OF dist] early [OF a])
    show "handle_submit_username_request hs request lp sid later =
            submit_username_with_session hs request lp sid ?session
              (later\<lparr>username_mapping_sessions := unexpired ?now (username_mapping_sessions later)\<rparr>)"
      by (simp add: handle_submit_username_request_swept [OF dist] early [OF a])
  next
    assume a: "time_msec hs wr + 15 * 60 * 1000 \<le> ?now"
    show "check_username_availability hs lp sid later =
            (Inl (SynapseError 400 ''unknown session'' UNKNOWN),
             later\<lparr>username_mapping_sessions := unexpired ?now (username_mapping_sessions later)\<rparr>)"
      by (simp add: check_username_availability_swept [OF dist] late [OF a])
    show "handle_submit_username_request hs request lp sid later =
            (Inl (SynapseError 400 ''unknown session'' UNKNOWN), request,
             later\<lparr>username_mapping_sessions := unexpired ?now (username_mapping_sessions later)\<rparr>)"
      by (simp add: handle_submit_username_request_swept [OF dist] late [OF a])
  qed
qed

text \<open>
  In the example deployment the session is created at the clock reading 1000, so it
  expires at 901000: at 900999 the check answers and the submit registers the user; at
  901000 both raise "unknown session" and the sweep has emptied the table.
\<close>

theorem picker_session_expiry_boundary_witness:
  "redirect_to_username_picker sim_hs ''oidc'' ''new'' (attrs None) ''https://client.example/''
       None sim_self0 =
     (RedirectException ''/_synapse/client/pick_username''
        [''username_mapping_session=abcdefghijklmnop; path=/''], sim_self1) \<and>
   expiry_time_ms sim_session = 1000 + 15 * 60 * 1000 \<and>
   check_username_availability sim_hs ''bob2'' ''abcdefghijklmnop''
       (sim_self1\<lparr>world := sim_w0\<lparr>now_ms := 900999\<rparr>\<rparr>) =
     (Inr True, sim_self1\<lparr>world := sim_w0\<lparr>now_ms := 900999\<rparr>\<rparr>) \<and>
   handle_submit_username_request sim_hs sim_request ''bob'' ''abcdefghijklmnop''
       (sim_self1\<lparr>world := sim_w0\<lparr>now_ms := 900999\<rparr>\<rparr>) =
     (Inl (SynapseError 400 ''User ID already taken.'' USER_IN_USE), sim_request,
      sim_self1\<lparr>world := sim_w0\<lparr>now_ms := 900999\<rparr>\<rparr>) \<and>
   check_username_availability sim_hs ''bob2'' ''abcdefghijklmnop''
       (sim_self1\<lparr>world := sim_w0\<lparr>now_ms := 901000\<rparr>\<rparr>) =
     (Inl (SynapseError 400 ''unknown session'' UNKNOWN),
      \<lparr>username_mapping_sessions = [], identity_providers = [],
       world = sim_w0\<lparr>now_ms := 901000\<rparr>\<rparr>) \<and>
   handle_submit_username_request sim_hs sim_request ''bob'' ''abcdefghijklmnop''
       (sim_self1\<lparr>world := sim_w0\<lparr>now_ms := 901000\<rparr>\<rparr>) =
     (Inl (SynapseError 400 ''unknown session'' UNKNOWN), sim_request,
      \<lparr>username_mapping_sessions = [], identity_providers = [],
       world = sim_w0\<lparr>now_ms := 901000\<rparr>\<rparr>)"
proof -
  have h2: "random_string sim_hs 16 (world sim_self0) =
      (''abcdefghijklmnop'', sim_w0\<lparr>random_strings := []\<rparr>)"
    by (simp add: sim_hs_def sim_self0_def sim_w0_def)
  have h3: "redirect_to_username_picker sim_hs ''oidc'' ''new'' (attrs None)
      ''https://client.example/'' None sim_self0 =
     (RedirectException ''/_synapse/client/pick_username''
        [''username_mapping_session=abcdefghijklmnop; path=/''], sim_self1)"
    by (simp add: redirect_to_username_picker_def h2 encode_ascii_def dict_set_def attrs_def
        USERNAME_MAPPING_SESSION_COOKIE_NAME_def MAPPING_SESSION_VALIDITY_PERIOD_MS_def
        sim_self0_def sim_self1_def sim_session_def)
      (simp add: sim_hs_def sim_w0_def USERNAME_MAPPING_SESSION_COOKIE_NAME_def)
  have h1: "distinct (map fst (username_mapping_sessions (sim_self1\<lparr>world := w\<rparr>)))" for w
    by (simp add: sim_self1_def)
  have h4: "dict_get (username_mapping_sessions (sim_self1\<lparr>world := w\<rparr>)) ''abcdefghijklmnop'' =
      dict_get (username_mapping_sessions sim_self1) ''abcdefghijklmnop''" for w
    by simp
  have T: "time_msec sim_hs (sim_w0\<lparr>random_strings := []\<rparr>) = 1000"
    by (simp add: sim_hs_def sim_w0_def)
  have now: "time_msec sim_hs (sim_w0\<lparr>now_ms := t\<rparr>) = t" for t
    by (simp add: sim_hs_def)
  have kept: "unexpired 900999 (username_mapping_sessions sim_self1) =
      username_mapping_sessions sim_self1"
    by (simp add: unexpired_def sim_self1_def sim_session_def)
  have swept: "unexpired 901000 (username_mapping_sessions sim_self1) = []"
    by (simp add: unexpired_def sim_self1_def sim_session_def)
  have users: "users (sim_w0\<lparr>now_ms := t\<rparr>) = [''@alice:example.org'', ''@Bob:example.org'']" for t
    by (simp add: sim_w0_def)
  have bob: "\<not> invalid_localpart sim_hs (Some ''bob'')"
    by (simp add: invalid_localpart_def sim_hs_def)
  have reg_bob: "register_user sim_hs ''bob'' dn ems uaips (sim_w0\<lparr>now_ms := t\<rparr>) =
      (Inl (SynapseError 400 ''User ID already taken.'' USER_IN_USE), sim_w0\<lparr>now_ms := t\<rparr>)"
    for dn ems uaips t
    by (simp add: sim_hs_def UserID_to_string_def sim_taken_bob [OF users])
  obtain session where early:
    "dict_get (username_mapping_sessions sim_self1) ''abcdefghijklmnop'' = Some session"
    "check_username_availability sim_hs ''bob2'' ''abcdefghijklmnop''
       (sim_self1\<lparr>world := sim_w0\<lparr>now_ms := 900999\<rparr>\<rparr>) =
     (Inr (get_users_by_id_case_insensitive sim_hs (UserID_to_string ''bob2'' (hostname sim_hs))
             (sim_w0\<lparr>now_ms := 900999\<rparr>) = []),
      sim_self1\<lparr>world := sim_w0\<lparr>now_ms := 900999\<rparr>\<rparr>)"
    "handle_submit_username_request sim_hs sim_request ''bob'' ''abcdefghijklmnop''
       (sim_self1\<lparr>world := sim_w0\<lparr>now_ms := 900999\<rparr>\<rparr>) =
     submit_username_with_session sim_hs sim_request ''bob'' ''abcdefghijklmnop'' session
       (sim_self1\<lparr>world := sim_w0\<lparr>now_ms := 900999\<rparr>\<rparr>)"
    using picker_session_expiry_boundary [OF h2 h3 h1 h4, of "sim_w0\<lparr>now_ms := 900999\<rparr>"
        "''bob2''" sim_request]
      picker_session_expiry_boundary [OF h2 h3 h1 h4, of "sim_w0\<lparr>now_ms := 900999\<rparr>"
        "''bob''" sim_request]
    by (auto simp: T now kept sim_valid_bob2)
  have late:
    "check_username_availability sim_hs ''bob2'' ''abcdefghijklmnop''
       (sim_self1\<lparr>world := sim_w0\<lparr>now_ms := 901000\<rparr>\<rparr>) =
     (Inl (SynapseError 400 ''unknown session'' UNKNOWN),
      sim_self1\<lparr>world := sim_w0\<lparr>now_ms := 901000\<rparr>, username_mapping_sessions := []\<rparr>)"
    "handle_submit_username_request sim_hs sim_request ''bob'' ''abcdefghijklmnop''
       (sim_self1\<lparr>world := sim_w0\<lparr>now_ms := 901000\<rparr>\<rparr>) =
     (Inl (SynapseError 400 ''unknown session'' UNKNOWN), sim_request,
      sim_self1\<lparr>world := sim_w0\<lparr>now_ms := 901000\<rparr>, username_mapping_sessions := []\<rparr>)"
    using picker_session_expiry_boundary [OF h2 h3 h1 h4, of "sim_w0\<lparr>now_ms := 901000\<rparr>"
        "''bob2''" sim_request]
      picker_session_expiry_boundary [OF h2 h3 h1 h4, of "sim_w0\<lparr>now_ms := 901000\<rparr>"
        "''bob''" sim_request]
    by (auto simp: T now swept)
  have 1: "check_username_availability sim_hs ''bob2'' ''abcdefghijklmnop''
       (sim_self1\<lparr>world := sim_w0\<lparr>now_ms := 900999\<rparr>\<rparr>) =
     (Inr True, sim_self1\<lparr>world := sim_w0\<lparr>now_ms := 900999\<rparr>\<rparr>)"
    by (simp add: early(2)) (simp add: sim_hs_def UserID_to_string_def sim_taken_bob2 [OF users])
  have 2: "handle_submit_username_request sim_hs sim_request ''bob'' ''abcdefghijklmnop''
       (sim_self1\<lparr>world := sim_w0\<lparr>now_ms := 900999\<rparr>\<rparr>) =
     (Inl (SynapseError 400 ''User ID already taken.'' USER_IN_USE), sim_request,
      sim_self1\<lparr>world := sim_w0\<lparr>now_ms := 900999\<rparr>\<rparr>)"
    using submit_username_with_session_refused [where hs = sim_hs and lp = "''bob''"
        and session = session and request = sim_request
        and self = "sim_self1\<lparr>world := sim_w0\<lparr>now_ms := 900999\<rparr>\<rparr>"
        and sid = "''abcdefghijklmnop''", OF bob]
    by (simp add: early(3) reg_bob)
  show ?thesis
    using h3 1 2 late by (simp add: sim_session_def sim_self1_def)
qed

end
